theory Spec2Isabelle
  imports Main
begin

section \<open>Strings of the Go standard library\<close>

text \<open>
  A Go string is a sequence of bytes; it is modelled as a \<open>string\<close> (a list of 8-bit
  characters). The helpers below model the functions of package \<open>strings\<close> that the image
  parser calls. Every separator the parser passes is a single byte, so the separator is a
  \<open>char\<close>.
\<close>

definition byte :: "char \<Rightarrow> nat" where
  "byte c = of_char c"

definition HasPrefix :: "string \<Rightarrow> string \<Rightarrow> bool" where
  "HasPrefix s p = (take (length p) s = p)"

definition HasSuffix :: "string \<Rightarrow> string \<Rightarrow> bool" where
  "HasSuffix s p = (length p \<le> length s \<and> drop (length s - length p) s = p)"

definition TrimPrefix :: "string \<Rightarrow> string \<Rightarrow> string" where
  "TrimPrefix s p = (if HasPrefix s p then drop (length p) s else s)"

text \<open>\<open>strings.CutPrefix\<close>: the rest after the prefix, or nothing when the prefix is absent.\<close>

definition CutPrefix :: "string \<Rightarrow> string \<Rightarrow> string option" where
  "CutPrefix s p = (if HasPrefix s p then Some (drop (length p) s) else None)"

text \<open>\<open>strings.Split s sep\<close>: one more part than there are separators; \<open>Split "" sep\<close> is \<open>[""]\<close>.\<close>

fun Split :: "string \<Rightarrow> char \<Rightarrow> string list" where
  "Split [] sep = [[]]"
| "Split (c # cs) sep =
     (if c = sep then [] # Split cs sep
      else (case Split cs sep of
              [] \<Rightarrow> [[c]]
            | p # ps \<Rightarrow> (c # p) # ps))"

definition Contains :: "string \<Rightarrow> char \<Rightarrow> bool" where
  "Contains s c = (c \<in> set s)"

text \<open>\<open>strings.LastIndex\<close>: the index of the last occurrence, \<open>None\<close> for Go's \<open>-1\<close>.\<close>

fun LastIndex :: "string \<Rightarrow> char \<Rightarrow> nat option" where
  "LastIndex [] sep = None"
| "LastIndex (c # cs) sep =
     (case LastIndex cs sep of
        Some i \<Rightarrow> Some (Suc i)
      | None \<Rightarrow> (if c = sep then Some 0 else None))"

text \<open>\<open>strings.Cut\<close>: the text before and after the first separator, \<open>None\<close> when \<open>ok\<close> is false.\<close>

definition Cut :: "string \<Rightarrow> char \<Rightarrow> (string \<times> string) option" where
  "Cut s sep =
     (if Contains s sep
      then Some (takeWhile (\<lambda>c. c \<noteq> sep) s, drop 1 (dropWhile (\<lambda>c. c \<noteq> sep) s))
      else None)"

definition ReplaceAll :: "string \<Rightarrow> char \<Rightarrow> char \<Rightarrow> string" where
  "ReplaceAll s old new = map (\<lambda>c. if c = old then new else c) s"

text \<open>\<open>strings.Trim s cutset\<close> for a cutset of ASCII bytes.\<close>

definition Trim :: "string \<Rightarrow> string \<Rightarrow> string" where
  "Trim s cutset =
     rev (dropWhile (\<lambda>c. c \<in> set cutset) (rev (dropWhile (\<lambda>c. c \<in> set cutset) s)))"

definition isASCII :: "string \<Rightarrow> bool" where
  "isASCII s = list_all (\<lambda>c. byte c < 128) s"

definition lowerByte :: "char \<Rightarrow> char" where
  "lowerByte c = (if 65 \<le> byte c \<and> byte c \<le> 90 then char_of (byte c + 32) else c)"

text \<open>
  \<open>strings.ToLower\<close>: on a string of ASCII bytes it lowers \<open>A\<close>..\<open>Z\<close> byte by byte. On any
  other string it maps \<open>unicode.ToLower\<close> over the runes; that table is not part of this
  program, so the result on such strings is the parameter \<open>ul\<close>.
\<close>

definition ToLower :: "(string \<Rightarrow> string) \<Rightarrow> string \<Rightarrow> string" where
  "ToLower ul s = (if isASCII s then map lowerByte s else ul s)"

text \<open>
  The width in bytes of the first rune of a string, as Go's UTF-8 decoder (used by
  \<open>for i, r := range name\<close>) finds it: a well-formed multi-byte sequence has its encoded
  width, every other byte (ASCII or malformed) has width 1.
\<close>

definition contByte :: "char \<Rightarrow> bool" where
  "contByte c = (128 \<le> byte c \<and> byte c \<le> 191)"

definition secondByteOK :: "nat \<Rightarrow> char \<Rightarrow> bool" where
  "secondByteOK s0 c =
     (if s0 = 224 then 160 \<le> byte c \<and> byte c \<le> 191
      else if s0 = 237 then 128 \<le> byte c \<and> byte c \<le> 159
      else if s0 = 240 then 144 \<le> byte c \<and> byte c \<le> 191
      else if s0 = 244 then 128 \<le> byte c \<and> byte c \<le> 143
      else contByte c)"

fun runeWidth :: "string \<Rightarrow> nat" where
  "runeWidth [] = 0"
| "runeWidth (c # cs) =
     (let s0 = byte c in
      if s0 < 128 then 1
      else if 194 \<le> s0 \<and> s0 \<le> 223 then
        (case cs of
           s1 # _ \<Rightarrow> if secondByteOK s0 s1 then 2 else 1
         | _ \<Rightarrow> 1)
      else if 224 \<le> s0 \<and> s0 \<le> 239 then
        (case cs of
           s1 # s2 # _ \<Rightarrow> if secondByteOK s0 s1 \<and> contByte s2 then 3 else 1
         | _ \<Rightarrow> 1)
      else if 240 \<le> s0 \<and> s0 \<le> 244 then
        (case cs of
           s1 # s2 # s3 # _ \<Rightarrow>
             if secondByteOK s0 s1 \<and> contByte s2 \<and> contByte s3 then 4 else 1
         | _ \<Rightarrow> 1)
      else 1)"

section \<open>The image reference parser (pkg/image/parser.go)\<close>

record Reference =
  Registry :: string
  Repository :: string
  Tag :: string
  Digest :: string
  FullReference :: string

datatype parse_error = EmptyImageID | NoDigest string

text \<open>The tag split of \<open>ParseImageID\<close>: the tag and the image without it.\<close>

definition splitTag :: "string \<Rightarrow> string \<times> string" where
  "splitTag imageWithoutDigest =
     (case LastIndex imageWithoutDigest CHR '':'' of
        None \<Rightarrow> ([], imageWithoutDigest)
      | Some colonIdx \<Rightarrow>
          (let afterColon = drop (colonIdx + 1) imageWithoutDigest in
           if \<not> Contains afterColon CHR ''/''
           then (afterColon, take colonIdx imageWithoutDigest)
           else ([], imageWithoutDigest)))"

text \<open>The registry and repository of an image name without digest and tag.\<close>

definition splitRegistry :: "string \<Rightarrow> string \<times> string" where
  "splitRegistry imageWithoutDigest =
     (case Cut imageWithoutDigest CHR ''/'' of
        None \<Rightarrow> (''docker.io'', ''library/'' @ imageWithoutDigest)
      | Some (possibleRegistry, rest) \<Rightarrow>
          (if Contains possibleRegistry CHR ''.'' \<or> Contains possibleRegistry CHR '':''
              \<or> possibleRegistry = ''localhost''
           then (possibleRegistry, rest)
           else (''docker.io'', imageWithoutDigest)))"

definition stripScheme :: "string \<Rightarrow> string" where
  "stripScheme imageID = TrimPrefix (TrimPrefix imageID ''docker-pullable://'') ''docker://''"

definition ParseImageID :: "string \<Rightarrow> parse_error + Reference" where
  "ParseImageID imageID0 =
     (if imageID0 = [] then Inl EmptyImageID
      else
        (let imageID = stripScheme imageID0;
             parts = Split imageID CHR ''@''
         in if length parts \<noteq> 2 then Inl (NoDigest imageID)
            else
              (let (tag, imageWithoutDigest) = splitTag (parts ! 0);
                   (registry, repository) = splitRegistry imageWithoutDigest
               in Inr \<lparr>Registry = registry, Repository = repository, Tag = tag,
                        Digest = parts ! 1, FullReference = imageID\<rparr>)))"

definition validNameByte :: "char \<Rightarrow> bool" where
  "validNameByte c =
     ((97 \<le> byte c \<and> byte c \<le> 122) \<or> (48 \<le> byte c \<and> byte c \<le> 57)
      \<or> c = CHR ''.'' \<or> c = CHR ''-'')"

text \<open>
  The loop of \<open>sanitizeK8sName\<close>: \<open>n\<close> is \<open>len(name)\<close>, \<open>i\<close> the byte index of the rune
  that starts the remaining text. A rune above ASCII, or a malformed byte, is none of the
  accepted characters, so only its width matters.
\<close>

fun sanitizeLoop :: "nat \<Rightarrow> nat \<Rightarrow> string \<Rightarrow> string" where
  "sanitizeLoop n i [] = []"
| "sanitizeLoop n i (c # cs) =
     (let w = runeWidth (c # cs);
          out = (if validNameByte c then [c]
                 else if c = CHR ''_'' \<or> c = CHR ''/'' then ''.''
                 else if 0 < i \<and> i < n - 1 then ''-''
                 else [])
      in out @ sanitizeLoop n (i + w) (drop (w - 1) cs))"

definition sanitizeK8sName :: "string \<Rightarrow> string" where
  "sanitizeK8sName name = Trim (sanitizeLoop (length name) 0 name) ''.-''"

definition shortDigest :: "string \<Rightarrow> string" where
  "shortDigest digest =
     (case CutPrefix digest ''sha256:'' of
        None \<Rightarrow> digest
      | Some trimmed \<Rightarrow> (if length trimmed > 8 then take 8 trimmed else trimmed))"

definition ReferenceToCRName :: "(string \<Rightarrow> string) \<Rightarrow> Reference \<Rightarrow> string" where
  "ReferenceToCRName ul ref =
     (let name = Registry ref @ ''.'' @ Repository ref;
          name = ReplaceAll name CHR ''/'' CHR ''.'';
          name = name @ ''.'' @ shortDigest (Digest ref);
          name = ToLower ul name;
          name = sanitizeK8sName name
      in if length name > 253 then take 253 name else name)"

text \<open>\<open>ClassifyRegistry\<close>: the registry type of a registry hostname.\<close>

datatype RegistryType =
    RegistryTypeUnset
  | RegistryTypeRedHat
  | RegistryTypePartner
  | RegistryTypeCommunity
  | RegistryTypePrivate
  | RegistryTypeUnknown

definition ClassifyRegistry :: "(string \<Rightarrow> string) \<Rightarrow> string \<Rightarrow> RegistryType" where
  "ClassifyRegistry ul registry0 =
     (let registry = ToLower ul registry0 in
      if registry \<in> set [''registry.redhat.io'', ''registry.access.redhat.com'',
                           ''registry.connect.redhat.com'']
      then RegistryTypeRedHat
      else if registry = ''quay.io'' then RegistryTypePartner
      else if registry \<in> set [''docker.io'', ''ghcr.io'', ''gcr.io'', ''registry.k8s.io'',
                                ''k8s.gcr.io'']
      then RegistryTypeCommunity
      else if HasSuffix registry ''.local'' \<or> HasSuffix registry ''.internal''
              \<or> registry = ''localhost'' \<or> HasPrefix registry ''localhost:''
      then RegistryTypePrivate
      else RegistryTypeUnknown)"

definition IsRedHatRegistry :: "(string \<Rightarrow> string) \<Rightarrow> string \<Rightarrow> bool" where
  "IsRedHatRegistry ul registry = (ClassifyRegistry ul registry = RegistryTypeRedHat)"

section \<open>The inventory record (api/v1alpha1)\<close>

text \<open>
  An instant is a number of nanoseconds on the clock, a duration a number of nanoseconds.
  \<open>RegistryTypeUnset\<close> and \<open>CertificationStatusUnset\<close> are the empty string, the value of
  a status that was never written.
\<close>

type_synonym time = int

datatype CertificationStatus =
    CertificationStatusUnset
  | CertificationStatusCertified
  | CertificationStatusNotCertified
  | CertificationStatusPending
  | CertificationStatusUnknown
  | CertificationStatusError

record PodReference =
  Namespace :: string
  Name :: string
  Container :: string

record VulnerabilitySummary =
  Critical :: int
  Important :: int
  Moderate :: int
  Low :: int

record PyxisData =
  ProjectID :: string
  Publisher :: string
  HealthIndex :: string
  CatalogURL :: string
  PublishedAt :: "time option"
  Vulnerabilities :: "VulnerabilitySummary option"
  EOLDate :: "time option"
  ReleaseCategory :: string
  ReplacedBy :: string
  Architectures :: "string list"
  CompressedSizeBytes :: int
  AutoRebuildEnabled :: bool
  ArchitectureHealth :: "string \<rightharpoonup> string"
  UncompressedSizeBytes :: int
  LayerCount :: int
  BuildDate :: string
  AdvisoryIDs :: "string list"

record Condition =
  Type :: string
  ConditionStatus :: string
  LastTransitionTime :: time
  Reason :: string
  Message :: string

record ImageCertificationInfoSpec =
  ImageDigest :: string
  FullImageReference :: string
  SpecRegistry :: string
  SpecRepository :: string
  SpecTag :: string

record ImageCertificationInfoStatus =
  StatusRegistryType :: RegistryType
  CertificationStatus :: CertificationStatus
  PyxisData :: "PyxisData option"
  PodReferences :: "PodReference list"
  FirstSeenAt :: "time option"
  LastSeenAt :: "time option"
  LastPyxisCheckAt :: "time option"
  Conditions :: "Condition list"
  ImageAge :: string
  DaysUntilEOL :: "int option"

record ImageCertificationInfo =
  ObjectName :: string
  Annotations :: "string \<rightharpoonup> string"
  Spec :: ImageCertificationInfoSpec
  Status :: ImageCertificationInfoStatus

definition emptyStatus :: ImageCertificationInfoStatus where
  "emptyStatus =
     \<lparr>StatusRegistryType = RegistryTypeUnset, CertificationStatus = CertificationStatusUnset,
      PyxisData = None, PodReferences = [], FirstSeenAt = None, LastSeenAt = None,
      LastPyxisCheckAt = None, Conditions = [], ImageAge = [], DaysUntilEOL = None\<rparr>"

text \<open>The certification data a lookup returns (pkg/pyxis).\<close>

record CertificationData =
  cdProjectID :: string
  cdPublisher :: string
  cdHealthIndex :: string
  cdVulnerabilities :: "VulnerabilitySummary option"
  cdCatalogURL :: string
  cdImageID :: string
  cdPublishedAt :: string
  cdCVEs :: "string list"
  cdEOLDate :: string
  cdReleaseCategory :: string
  cdReplacedBy :: string
  cdArchitectures :: "string list"
  cdCompressedSizeBytes :: int
  cdAutoRebuildEnabled :: bool
  cdArchitectureHealth :: "string \<rightharpoonup> string"
  cdUncompressedSizeBytes :: int
  cdLayerCount :: int
  cdBuildDate :: string
  cdAdvisoryIDs :: "string list"

text \<open>The pods the reconciler observes (k8s.io/api/core/v1).\<close>

datatype PodPhase = PodPending | PodRunning | PodSucceeded | PodFailed | PodUnknown

record ContainerStatus =
  ContainerName :: string
  ImageID :: string

record Pod =
  PodNamespace :: string
  PodName :: string
  Phase :: PodPhase
  ContainerStatuses :: "ContainerStatus list"
  InitContainerStatuses :: "ContainerStatus list"

section \<open>The cluster as the reconciler sees it\<close>

text \<open>
  The reconciler reaches pods and records only through the API client: get, list, create,
  update of the status, update of the object. The cluster is the state behind that client.
  \<open>fault\<close> says which requests the API server fails with an error that is not "not found"
  (time-out, forbidden, conflict). \<open>writes\<close> is the log of the write requests sent, in
  order; \<open>events\<close> are the events handed to the recorder; \<open>spawned\<close> are the enrichment
  calls started with \<open>go\<close>, which run detached from the pass that starts them.
\<close>

datatype api_error = NotFound | AlreadyExists | OtherError

datatype api_call =
    GetPod string string
  | GetCR string
  | ListCRs
  | CreateCR string
  | UpdateStatus string
  | UpdateCR string

record Event =
  EventObject :: string
  EventType :: string
  EventReason :: string
  EventMessage :: string

record cluster =
  pods :: "Pod list"
  crs :: "ImageCertificationInfo list"
  fault :: "api_call \<Rightarrow> bool"
  writes :: "api_call list"
  events :: "Event list"
  spawned :: "(string \<times> Reference) list"

definition getPod :: "cluster \<Rightarrow> string \<Rightarrow> string \<Rightarrow> api_error + Pod" where
  "getPod c ns name =
     (if fault c (GetPod ns name) then Inl OtherError
      else (case find (\<lambda>p. PodNamespace p = ns \<and> PodName p = name) (pods c) of
              None \<Rightarrow> Inl NotFound
            | Some p \<Rightarrow> Inr p))"

definition getCR :: "cluster \<Rightarrow> string \<Rightarrow> api_error + ImageCertificationInfo" where
  "getCR c name =
     (if fault c (GetCR name) then Inl OtherError
      else (case find (\<lambda>x. ObjectName x = name) (crs c) of
              None \<Rightarrow> Inl NotFound
            | Some cr \<Rightarrow> Inr cr))"

definition listCRs :: "cluster \<Rightarrow> api_error + ImageCertificationInfo list" where
  "listCRs c = (if fault c ListCRs then Inl OtherError else Inr (crs c))"

definition hasCR :: "cluster \<Rightarrow> string \<Rightarrow> bool" where
  "hasCR c name = list_ex (\<lambda>x. ObjectName x = name) (crs c)"

text \<open>\<open>r.Create\<close>: stores a new object; the status of a new object is empty.\<close>

definition createCR :: "ImageCertificationInfo \<Rightarrow> cluster \<Rightarrow> api_error option \<times> cluster" where
  "createCR cr c =
     (let c1 = c\<lparr>writes := writes c @ [CreateCR (ObjectName cr)]\<rparr> in
      if fault c (CreateCR (ObjectName cr)) then (Some OtherError, c1)
      else if hasCR c (ObjectName cr) then (Some AlreadyExists, c1)
      else (None, c1\<lparr>crs := crs c @ [cr\<lparr>Status := emptyStatus\<rparr>]\<rparr>))"

text \<open>\<open>r.Status().Update\<close>: replaces the status of the stored object, nothing else.\<close>

definition updateStatus :: "ImageCertificationInfo \<Rightarrow> cluster \<Rightarrow> api_error option \<times> cluster" where
  "updateStatus cr c =
     (let c1 = c\<lparr>writes := writes c @ [UpdateStatus (ObjectName cr)]\<rparr> in
      if fault c (UpdateStatus (ObjectName cr)) then (Some OtherError, c1)
      else if \<not> hasCR c (ObjectName cr) then (Some NotFound, c1)
      else (None, c1\<lparr>crs := map (\<lambda>x. if ObjectName x = ObjectName cr
                                      then x\<lparr>Status := Status cr\<rparr> else x) (crs c)\<rparr>))"

text \<open>\<open>r.Update\<close>: replaces the object (annotations, spec) and leaves its status.\<close>

definition updateCR :: "ImageCertificationInfo \<Rightarrow> cluster \<Rightarrow> api_error option \<times> cluster" where
  "updateCR cr c =
     (let c1 = c\<lparr>writes := writes c @ [UpdateCR (ObjectName cr)]\<rparr> in
      if fault c (UpdateCR (ObjectName cr)) then (Some OtherError, c1)
      else if \<not> hasCR c (ObjectName cr) then (Some NotFound, c1)
      else (None, c1\<lparr>crs := map (\<lambda>x. if ObjectName x = ObjectName cr
                                      then x\<lparr>Annotations := Annotations cr, Spec := Spec cr\<rparr>
                                      else x) (crs c)\<rparr>))"

section \<open>The pod reconciler (controller)\<close>

text \<open>
  What the controller takes from outside this program: \<open>unicode.ToLower\<close> on non-ASCII
  text, the two \<open>time.Parse\<close> layouts it uses, and \<open>int(d.Hours() / 24)\<close>, a
  floating-point computation of the days in a duration.
\<close>

record env =
  unicodeLower :: "string \<Rightarrow> string"
  parseRFC3339 :: "string \<Rightarrow> time option"
  parseDate :: "string \<Rightarrow> time option"
  durationDays :: "int \<Rightarrow> int"

datatype lookup_error = LookupError string

text \<open>
  \<open>PyxisClient\<close> is the lookup capability (\<open>None\<close> for a nil client): it answers with an
  error, with no data (\<open>Inr None\<close>) or with data. \<open>Recorder\<close> says whether an event
  recorder is set.
\<close>

record PodReconciler =
  PyxisClient :: "(string \<Rightarrow> string \<Rightarrow> string \<Rightarrow> lookup_error + CertificationData option) option"
  Recorder :: bool

definition recordEvent :: "PodReconciler \<Rightarrow> Event \<Rightarrow> cluster \<Rightarrow> cluster" where
  "recordEvent r ev c = (if Recorder r then c\<lparr>events := events c @ [ev]\<rparr> else c)"

text \<open>\<open>createImageCertificationInfo\<close>: create the object, then write its first status.\<close>

definition createImageCertificationInfo ::
  "env \<Rightarrow> PodReconciler \<Rightarrow> time \<Rightarrow> Reference \<Rightarrow> string \<Rightarrow> PodReference \<Rightarrow> cluster
     \<Rightarrow> api_error option \<times> cluster" where
  "createImageCertificationInfo e r now ref crName podRef c =
     (let registryType = ClassifyRegistry (unicodeLower e) (Registry ref);
          cr = \<lparr>ObjectName = crName, Annotations = Map.empty,
                Spec = \<lparr>ImageDigest = Digest ref, FullImageReference = FullReference ref,
                         SpecRegistry = Registry ref, SpecRepository = Repository ref,
                         SpecTag = Tag ref\<rparr>,
                Status = emptyStatus\<rparr>
      in case createCR cr c of
           (Some err, c1) \<Rightarrow> (Some err, c1)
         | (None, c1) \<Rightarrow>
             (let cr = cr\<lparr>Status :=
                    \<lparr>StatusRegistryType = registryType,
                     CertificationStatus = CertificationStatusUnknown,
                     PyxisData = None,
                     PodReferences = [podRef],
                     FirstSeenAt = Some now,
                     LastSeenAt = Some now,
                     LastPyxisCheckAt = None,
                     Conditions = [\<lparr>Type = ''Available'', ConditionStatus = ''True'',
                                    LastTransitionTime = now, Reason = ''ImageDiscovered'',
                                    Message = ''Image has been discovered in the cluster''\<rparr>],
                     ImageAge = [],
                     DaysUntilEOL = None\<rparr>\<rparr>
              in case updateStatus cr c1 of
                   (Some err, c2) \<Rightarrow> (Some err, c2)
                 | (None, c2) \<Rightarrow>
                     (let c3 = recordEvent r
                                 \<lparr>EventObject = crName, EventType = ''Normal'',
                                  EventReason = ''ImageDiscovered'',
                                  EventMessage = ''Discovered image '' @ FullReference ref\<rparr> c2;
                          c4 = (if PyxisClient r \<noteq> None
                                   \<and> IsRedHatRegistry (unicodeLower e) (Registry ref)
                                then c3\<lparr>spawned := spawned c3 @ [(crName, ref)]\<rparr>
                                else c3)
                      in (None, c4))))"

text \<open>The loop of \<open>updatePodReferences\<close> that looks for the reference.\<close>

fun alreadyTracked :: "PodReference list \<Rightarrow> PodReference \<Rightarrow> bool" where
  "alreadyTracked [] podRef = False"
| "alreadyTracked (existing # rest) podRef =
     (if Namespace existing = Namespace podRef \<and> Name existing = Name podRef
         \<and> Container existing = Container podRef
      then True
      else alreadyTracked rest podRef)"

definition updatePodReferences ::
  "time \<Rightarrow> ImageCertificationInfo \<Rightarrow> PodReference \<Rightarrow> cluster \<Rightarrow> api_error option \<times> cluster" where
  "updatePodReferences now cr podRef c =
     (if alreadyTracked (PodReferences (Status cr)) podRef
      then updateStatus (cr\<lparr>Status := (Status cr)\<lparr>LastSeenAt := Some now\<rparr>\<rparr>) c
      else updateStatus
             (cr\<lparr>Status := (Status cr)\<lparr>PodReferences := PodReferences (Status cr) @ [podRef],
                                      LastSeenAt := Some now\<rparr>\<rparr>) c)"

text \<open>The body of the loop of \<open>Reconcile\<close> over the container statuses.\<close>

definition reconcileContainer ::
  "env \<Rightarrow> PodReconciler \<Rightarrow> time \<Rightarrow> Pod \<Rightarrow> cluster \<Rightarrow> ContainerStatus \<Rightarrow> cluster" where
  "reconcileContainer e r now pod c containerStatus =
     (if ImageID containerStatus = [] then c
      else (case ParseImageID (ImageID containerStatus) of
              Inl err \<Rightarrow> c
            | Inr ref \<Rightarrow>
                (let crName = ReferenceToCRName (unicodeLower e) ref;
                     podRef = \<lparr>Namespace = PodNamespace pod, Name = PodName pod,
                               Container = ContainerName containerStatus\<rparr>
                 in case getCR c crName of
                      Inl NotFound \<Rightarrow>
                        snd (createImageCertificationInfo e r now ref crName podRef c)
                    | Inl err \<Rightarrow> c
                    | Inr existingCR \<Rightarrow> snd (updatePodReferences now existingCR podRef c))))"

text \<open>
  \<open>Reconcile\<close> for the pod \<open>(ns, name)\<close>: the error it returns (\<open>None\<close> for success) and
  the cluster after the pass. The pass is taken at the instant \<open>now\<close>.
\<close>

definition Reconcile ::
  "env \<Rightarrow> PodReconciler \<Rightarrow> time \<Rightarrow> string \<Rightarrow> string \<Rightarrow> cluster \<Rightarrow> api_error option \<times> cluster" where
  "Reconcile e r now ns name c =
     (case getPod c ns name of
        Inl NotFound \<Rightarrow> (None, c)
      | Inl err \<Rightarrow> (Some err, c)
      | Inr pod \<Rightarrow>
          (if Phase pod \<noteq> PodRunning \<and> Phase pod \<noteq> PodPending then (None, c)
           else (None, foldl (reconcileContainer e r now pod) c
                         (ContainerStatuses pod @ InitContainerStatuses pod))))"

text \<open>\<open>%d\<close> of \<open>fmt.Sprintf\<close>, and \<open>strings.Join\<close>.\<close>

fun showNat :: "nat \<Rightarrow> string" where
  "showNat n =
     (if n < 10 then [char_of (48 + n)]
      else showNat (n div 10) @ [char_of (48 + n mod 10)])"

declare showNat.simps [simp del]

definition showInt :: "int \<Rightarrow> string" where
  "showInt i = (if i < 0 then CHR ''-'' # showNat (nat (- i)) else showNat (nat i))"

fun Join :: "string list \<Rightarrow> string \<Rightarrow> string" where
  "Join [] sep = []"
| "Join [x] sep = x"
| "Join (x # y # ys) sep = x @ sep @ Join (y # ys) sep"

text \<open>\<open>formatDuration\<close>; \<open>days\<close> is \<open>int(d.Hours() / 24)\<close>.\<close>

definition formatDuration :: "(int \<Rightarrow> int) \<Rightarrow> int \<Rightarrow> string" where
  "formatDuration daysOf d =
     (let days = daysOf d in
      if days < 1 then ''less than a day''
      else if days = 1 then ''1 day''
      else if days < 30 then showInt days @ '' days''
      else
        (let months = days div 30 in
         if months = 1 then ''1 month''
         else if months < 12 then showInt months @ '' months''
         else
           (let years = months div 12; remainingMonths = months mod 12 in
            if years = 1
            then (if remainingMonths = 0 then ''1 year''
                  else ''1 year '' @ showInt remainingMonths @ '' months'')
            else if remainingMonths = 0 then showInt years @ '' years''
            else showInt years @ '' years '' @ showInt remainingMonths @ '' months'')))"

text \<open>
  The enrichment payload \<open>checkPyxisCertification\<close> builds from certification data: a
  fresh \<open>PyxisData\<close>, every field of which comes from the data.
\<close>

definition newPyxisData :: "env \<Rightarrow> CertificationData \<Rightarrow> PyxisData" where
  "newPyxisData e certData =
     \<lparr>ProjectID = cdProjectID certData,
      Publisher = cdPublisher certData,
      HealthIndex = cdHealthIndex certData,
      CatalogURL = cdCatalogURL certData,
      PublishedAt = (if cdPublishedAt certData \<noteq> [] then parseRFC3339 e (cdPublishedAt certData)
                     else None),
      Vulnerabilities =
        (case cdVulnerabilities certData of
           None \<Rightarrow> None
         | Some v \<Rightarrow> Some \<lparr>Critical = Critical v, Important = Important v,
                            Moderate = Moderate v, Low = Low v\<rparr>),
      EOLDate = (if cdEOLDate certData \<noteq> []
                 then (case parseRFC3339 e (cdEOLDate certData) of
                         Some eolTime \<Rightarrow> Some eolTime
                       | None \<Rightarrow> parseDate e (cdEOLDate certData))
                 else None),
      ReleaseCategory = cdReleaseCategory certData,
      ReplacedBy = cdReplacedBy certData,
      Architectures = cdArchitectures certData,
      CompressedSizeBytes = cdCompressedSizeBytes certData,
      AutoRebuildEnabled = cdAutoRebuildEnabled certData,
      ArchitectureHealth = cdArchitectureHealth certData,
      UncompressedSizeBytes = cdUncompressedSizeBytes certData,
      LayerCount = cdLayerCount certData,
      BuildDate = cdBuildDate certData,
      AdvisoryIDs = cdAdvisoryIDs certData\<rparr>"

text \<open>The status after certification data was found.\<close>

definition certifiedStatus ::
  "env \<Rightarrow> time \<Rightarrow> CertificationData \<Rightarrow> ImageCertificationInfoStatus
     \<Rightarrow> ImageCertificationInfoStatus" where
  "certifiedStatus e now certData st0 =
     (let pd = newPyxisData e certData;
          st1 = st0\<lparr>CertificationStatus := CertificationStatusCertified, PyxisData := Some pd\<rparr>;
          st2 = (case PublishedAt pd of
                   None \<Rightarrow> st1
                 | Some t \<Rightarrow> st1\<lparr>ImageAge := formatDuration (durationDays e) (now - t)\<rparr>)
      in case EOLDate pd of
           None \<Rightarrow> st2
         | Some t \<Rightarrow> st2\<lparr>DaysUntilEOL := Some (durationDays e (t - now))\<rparr>)"

text \<open>The events emitted with it: end of life within 90 days, vulnerabilities found.\<close>

definition certificationEvents :: "env \<Rightarrow> time \<Rightarrow> string \<Rightarrow> CertificationData \<Rightarrow> Event list" where
  "certificationEvents e now crName certData =
     (case EOLDate (newPyxisData e certData) of
        None \<Rightarrow> []
      | Some t \<Rightarrow>
          (let daysUntil = durationDays e (t - now) in
           if daysUntil \<ge> 0 \<and> daysUntil \<le> 90
           then [\<lparr>EventObject = crName, EventType = ''Warning'',
                   EventReason = ''EOLApproaching'',
                   EventMessage = ''Image reaches EOL in '' @ showInt daysUntil @ '' days''
                     @ (if cdReplacedBy certData \<noteq> []
                        then '', replacement: '' @ cdReplacedBy certData else [])\<rparr>]
           else []))
     @ (case cdVulnerabilities certData of
          None \<Rightarrow> []
        | Some v \<Rightarrow>
            (if Critical v > 0 \<or> Important v > 0
             then [\<lparr>EventObject = crName, EventType = ''Warning'',
                     EventReason = ''VulnerabilitiesFound'',
                     EventMessage = ''Found '' @ showInt (Critical v) @ '' critical, ''
                       @ showInt (Important v) @ '' important vulnerabilities''\<rparr>]
             else []))"

text \<open>The second write of \<open>checkPyxisCertification\<close>: the CVE list as an annotation.\<close>

definition updateCVEAnnotation :: "string \<Rightarrow> string list \<Rightarrow> cluster \<Rightarrow> cluster" where
  "updateCVEAnnotation crName cves c =
     (case getCR c crName of
        Inl fetchErr \<Rightarrow> c
      | Inr crForAnnotation \<Rightarrow>
          snd (updateCR
                 (crForAnnotation\<lparr>Annotations :=
                    (Annotations crForAnnotation)
                      (''security.telco.openshift.io/cves'' \<mapsto> Join cves '','')\<rparr>) c))"

text \<open>
  \<open>checkPyxisCertification\<close>: one enrichment of the record \<open>crName\<close> at the instant
  \<open>now\<close>. The lookup comes first, then the record is read again and written back.
\<close>

definition checkPyxisCertification ::
  "env \<Rightarrow> PodReconciler \<Rightarrow> time \<Rightarrow> string \<Rightarrow> Reference \<Rightarrow> cluster \<Rightarrow> cluster" where
  "checkPyxisCertification e r now crName ref c =
     (case PyxisClient r of
        None \<Rightarrow> c
      | Some client \<Rightarrow>
          (let result = client (Registry ref) (Repository ref) (Digest ref) in
           case getCR c crName of
             Inl getErr \<Rightarrow> c
           | Inr cr0 \<Rightarrow>
               (let cr = cr0\<lparr>Status := (Status cr0)\<lparr>LastPyxisCheckAt := Some now\<rparr>\<rparr> in
                case result of
                  Inl err \<Rightarrow>
                    snd (updateStatus
                           (cr\<lparr>Status := (Status cr)
                                  \<lparr>CertificationStatus := CertificationStatusError\<rparr>\<rparr>) c)
                | Inr None \<Rightarrow>
                    snd (updateStatus
                           (cr\<lparr>Status := (Status cr)
                                  \<lparr>CertificationStatus := CertificationStatusNotCertified\<rparr>\<rparr>) c)
                | Inr (Some certData) \<Rightarrow>
                    (let cr1 = cr\<lparr>Status := certifiedStatus e now certData (Status cr)\<rparr>;
                         c1 = foldl (\<lambda>c ev. recordEvent r ev c) c
                                (certificationEvents e now crName certData);
                         c2 = snd (updateStatus cr1 c1)
                     in if cdCVEs certData \<noteq> []
                        then updateCVEAnnotation crName (cdCVEs certData) c2
                        else c2))))"

text \<open>
  The inner loop of \<open>CleanupStaleReferences\<close>: the references of one record that are kept.
\<close>

fun validRefs :: "cluster \<Rightarrow> PodReference list \<Rightarrow> PodReference list" where
  "validRefs c [] = []"
| "validRefs c (podRef # rest) =
     (case getPod c (Namespace podRef) (Name podRef) of
        Inr pod \<Rightarrow> podRef # validRefs c rest
      | Inl NotFound \<Rightarrow> validRefs c rest
      | Inl err \<Rightarrow> podRef # validRefs c rest)"

text \<open>The body of the outer loop: one record of the list.\<close>

definition cleanupRecord :: "cluster \<Rightarrow> ImageCertificationInfo \<Rightarrow> cluster" where
  "cleanupRecord c cr =
     (let refs = validRefs c (PodReferences (Status cr)) in
      if length refs \<noteq> length (PodReferences (Status cr))
      then snd (updateStatus (cr\<lparr>Status := (Status cr)\<lparr>PodReferences := refs\<rparr>\<rparr>) c)
      else c)"

definition CleanupStaleReferences :: "cluster \<Rightarrow> api_error option \<times> cluster" where
  "CleanupStaleReferences c =
     (case listCRs c of
        Inl err \<Rightarrow> (Some err, c)
      | Inr items \<Rightarrow> (None, foldl cleanupRecord c items))"

section \<open>The health-grade comparison\<close>

text \<open>
  Modelled from the spec: the ranking of the health grades. \<open>isHealthDegraded\<close> is called
  by the controller's tests, and its source is not among the files of the repository. The
  spec has "a fixed ordinal ranking (best to worst)"; the grades are \<open>A\<close> to \<open>F\<close>.
\<close>

definition healthGrades :: "string list" where
  "healthGrades = [''A'', ''B'', ''C'', ''D'', ''E'', ''F'']"

text \<open>
  Modelled from the spec: the rank of a grade is its place in the ranking; an empty or
  unrecognized grade has none.
\<close>

fun gradeRank :: "string list \<Rightarrow> string \<Rightarrow> nat option" where
  "gradeRank [] g = None"
| "gradeRank (x # xs) g =
     (if x = g then Some 0 else map_option Suc (gradeRank xs g))"

text \<open>
  Modelled from the spec: \<open>isHealthDegraded\<close>. A degradation is flagged "only when the new
  grade is strictly worse"; transitions "involving an empty or unrecognized grade" are not
  flagged.
\<close>

definition isHealthDegraded :: "string \<Rightarrow> string \<Rightarrow> bool" where
  "isHealthDegraded oldGrade newGrade =
     (case (gradeRank healthGrades oldGrade, gradeRank healthGrades newGrade) of
        (Some oldRank, Some newRank) \<Rightarrow> newRank > oldRank
      | _ \<Rightarrow> False)"

section \<open>The caching decorator (package dockerhub)\<close>

text \<open>
  A cache entry holds the result of a lookup (\<open>None\<close> for Go's nil, the explicit "absent"
  answer) and its expiry. The wrapped client may answer differently from call to call:
  \<open>client k namespace repository\<close> is its answer when \<open>k\<close> calls have been made before.
  \<open>invocations\<close> is the log of the calls made to it. The repository information itself is
  not looked into, so its type is a parameter.
\<close>

record 'info cacheEntry =
  data :: "'info option"
  expiresAt :: time

record 'info CachedClient =
  client :: "nat \<Rightarrow> string \<Rightarrow> string \<Rightarrow> lookup_error + 'info option"
  invocations :: "(string \<times> string) list"
  cache :: "string \<rightharpoonup> 'info cacheEntry"
  ttl :: int

definition cacheKey :: "string \<Rightarrow> string \<Rightarrow> string" where
  "cacheKey namespace repository = namespace @ ''/'' @ repository"

text \<open>
  The miss path of \<open>GetRepositoryInfo\<close>: call the wrapped client and store a successful
  answer; \<open>now'\<close> is the clock when the answer is stored.
\<close>

definition fetchAndStore ::
  "'info CachedClient \<Rightarrow> time \<Rightarrow> string \<Rightarrow> string
     \<Rightarrow> (lookup_error + 'info option) \<times> 'info CachedClient" where
  "fetchAndStore cc now' namespace repository =
     (let answer = client cc (length (invocations cc)) namespace repository;
          cc1 = cc\<lparr>invocations := invocations cc @ [(namespace, repository)]\<rparr>
      in case answer of
           Inl err \<Rightarrow> (Inl err, cc1)
         | Inr d \<Rightarrow>
             (Inr d, cc1\<lparr>cache := (cache cc1)
                           (cacheKey namespace repository
                              \<mapsto> \<lparr>data = d, expiresAt = now' + ttl cc\<rparr>)\<rparr>))"

text \<open>
  \<open>GetRepositoryInfo\<close>: \<open>now\<close> is the clock when the cache is read. An entry is served
  when \<open>found && time.Now().Before(entry.expiresAt)\<close>.
\<close>

definition GetRepositoryInfo ::
  "'info CachedClient \<Rightarrow> time \<Rightarrow> time \<Rightarrow> string \<Rightarrow> string
     \<Rightarrow> (lookup_error + 'info option) \<times> 'info CachedClient" where
  "GetRepositoryInfo cc now now' namespace repository =
     (case cache cc (cacheKey namespace repository) of
        None \<Rightarrow> fetchAndStore cc now' namespace repository
      | Some entry \<Rightarrow>
          (if now < expiresAt entry then (Inr (data entry), cc)
           else fetchAndStore cc now' namespace repository))"

definition ClearCache :: "'info CachedClient \<Rightarrow> 'info CachedClient" where
  "ClearCache cc = cc\<lparr>cache := Map.empty\<rparr>"

text \<open>\<open>CleanupExpired\<close>: drops the entries with \<open>now.After(entry.expiresAt)\<close>.\<close>

definition CleanupExpired :: "'info CachedClient \<Rightarrow> time \<Rightarrow> 'info CachedClient" where
  "CleanupExpired cc now =
     cc\<lparr>cache := (\<lambda>key. case cache cc key of
                            None \<Rightarrow> None
                          | Some entry \<Rightarrow> if now > expiresAt entry then None else Some entry)\<rparr>"

section \<open>Digests and example states\<close>

text \<open>
  The digits of a sha256 digest as image identifiers carry them: lowercase hexadecimal.
\<close>

definition hexDigits :: "string \<Rightarrow> bool" where
  "hexDigits s = list_all (\<lambda>c. c \<in> set ''0123456789abcdef'') s"

text \<open>
  A small cluster, a record and a cached client, on which the properties below are run:
  the pod \<open>web\<close> exists, the pod \<open>gone\<close> does not, and reading the pod \<open>flaky\<close> fails.
\<close>

definition exampleCachedClient :: "nat CachedClient" where
  "exampleCachedClient =
     \<lparr>client = (\<lambda>k namespace repository.
                  if k = 0 then Inl (LookupError ''timeout'') else Inr (Some k)),
      invocations = [], cache = Map.empty, ttl = 100\<rparr>"

definition examplePodRef :: PodReference where
  "examplePodRef = \<lparr>Namespace = ''default'', Name = ''web'', Container = ''app''\<rparr>"

definition exampleRecord :: ImageCertificationInfo where
  "exampleRecord =
     \<lparr>ObjectName = ''img'', Annotations = Map.empty,
      Spec = \<lparr>ImageDigest = ''sha256:ab'', FullImageReference = ''quay.io/a@sha256:ab'',
               SpecRegistry = ''quay.io'', SpecRepository = ''a'', SpecTag = []\<rparr>,
      Status = emptyStatus\<lparr>CertificationStatus := CertificationStatusUnknown,
                 PodReferences := [examplePodRef,
                                   \<lparr>Namespace = ''default'', Name = ''gone'', Container = ''app''\<rparr>,
                                   \<lparr>Namespace = ''default'', Name = ''flaky'', Container = ''app''\<rparr>]\<rparr>\<rparr>"

definition examplePod :: Pod where
  "examplePod =
     \<lparr>PodNamespace = ''default'', PodName = ''web'', Phase = PodRunning,
      ContainerStatuses =
        [\<lparr>ContainerName = ''app'',
          ImageID = ''registry.example/ns/app@sha256:0123456789abcdef0123456789abcdef0123456789abcdef0123456789abcdef''\<rparr>],
      InitContainerStatuses = []\<rparr>"

definition exampleCluster :: cluster where
  "exampleCluster =
     \<lparr>pods = [examplePod], crs = [exampleRecord],
      fault = (\<lambda>call. call = GetPod ''default'' ''flaky''),
      writes = [], events = [], spawned = []\<rparr>"

definition exampleHex :: string where
  "exampleHex = ''0123456789abcdef0123456789abcdef0123456789abcdef0123456789abcdef''"

text \<open>
  An environment in which no text parses as a date, so that \<open>durationDays\<close> is never
  applied. It is given as the division by the length of a day that truncates toward zero;
  the code's \<open>int(d.Hours() / 24)\<close> goes through \<open>float64\<close> and may round differently
  right at a day boundary.
\<close>

definition exampleEnv :: env where
  "exampleEnv =
     \<lparr>unicodeLower = (\<lambda>s. s), parseRFC3339 = (\<lambda>s. None), parseDate = (\<lambda>s. None),
      durationDays = (\<lambda>d. if d < 0 then - ((- d) div 86400000000000)
                           else d div 86400000000000)\<rparr>"

definition exampleCertData :: CertificationData where
  "exampleCertData =
     \<lparr>cdProjectID = ''p1'', cdPublisher = ''Red Hat'', cdHealthIndex = ''A'',
      cdVulnerabilities = Some \<lparr>Critical = 0, Important = 1, Moderate = 0, Low = 2\<rparr>,
      cdCatalogURL = [], cdImageID = [], cdPublishedAt = [], cdCVEs = [''CVE-2024-0001''],
      cdEOLDate = [], cdReleaseCategory = [], cdReplacedBy = [], cdArchitectures = [''amd64''],
      cdCompressedSizeBytes = 10, cdAutoRebuildEnabled = False,
      cdArchitectureHealth = Map.empty, cdUncompressedSizeBytes = 20, cdLayerCount = 3,
      cdBuildDate = [], cdAdvisoryIDs = []\<rparr>"

definition exampleReconciler :: PodReconciler where
  "exampleReconciler =
     \<lparr>PyxisClient = Some (\<lambda>registry repository digest.
         if digest = ''sha256:bad'' then Inl (LookupError ''timeout'')
         else if digest = ''sha256:none'' then Inr None
         else if digest = ''sha256:nocve'' then Inr (Some (exampleCertData\<lparr>cdCVEs := []\<rparr>))
         else Inr (Some exampleCertData)),
      Recorder = True\<rparr>"

text \<open>
  A record that was enriched before: it holds an older payload, whose fields differ from
  those of \<open>exampleCertData\<close>, and an older CVE list in its annotation.
\<close>

definition exampleOldPayload :: PyxisData where
  "exampleOldPayload =
     \<lparr>ProjectID = ''p0'', Publisher = ''Old Publisher'', HealthIndex = ''C'',
      CatalogURL = ''https://catalog.example/old'', PublishedAt = Some 1,
      Vulnerabilities = Some \<lparr>Critical = 4, Important = 3, Moderate = 2, Low = 1\<rparr>,
      EOLDate = Some 2, ReleaseCategory = ''Deprecated'', ReplacedBy = ''ns/newer'',
      Architectures = [''s390x''], CompressedSizeBytes = 1, AutoRebuildEnabled = True,
      ArchitectureHealth = [''s390x'' \<mapsto> ''C''], UncompressedSizeBytes = 2, LayerCount = 9,
      BuildDate = ''2020-01-01'', AdvisoryIDs = [''RHSA-OLD'']\<rparr>"

definition exampleEnrichedRecord :: ImageCertificationInfo where
  "exampleEnrichedRecord =
     exampleRecord
       \<lparr>Annotations := [''security.telco.openshift.io/cves'' \<mapsto> ''CVE-OLD-1,CVE-OLD-2''],
        Status := (Status exampleRecord)
          \<lparr>CertificationStatus := CertificationStatusNotCertified,
           PyxisData := Some exampleOldPayload\<rparr>\<rparr>"

definition exampleEnrichedCluster :: cluster where
  "exampleEnrichedCluster = exampleCluster\<lparr>crs := [exampleEnrichedRecord]\<rparr>"

definition exampleRef :: "string \<Rightarrow> Reference" where
  "exampleRef digest =
     \<lparr>Registry = ''quay.io'', Repository = ''a'', Tag = [], Digest = digest,
      FullReference = ''quay.io/a@'' @ digest\<rparr>"

section \<open>Properties of the parser\<close>

lemma length_Split: "length (Split s c) = count_list s c + 1"
  by (induction s) (auto split: list.splits)

lemma Split_two:
  assumes "count_list s c = 1"
  shows "Split s c = [takeWhile (\<lambda>x. x \<noteq> c) s, drop 1 (dropWhile (\<lambda>x. x \<noteq> c) s)]"
  using assms
proof (induction s)
  case Nil
  then show ?case by simp
next
  case (Cons x xs)
  show ?case
  proof (cases "x = c")
    case True
    with Cons.prems have "count_list xs c = 0" by simp
    then have "c \<notin> set xs" by (simp add: count_list_0_iff)
    then have "Split xs c = [xs]"
      by (induction xs) (auto split: list.splits)
    with True show ?thesis by simp
  next
    case False
    with Cons show ?thesis by simp
  qed
qed

text \<open>
  C6, as the code has it. \<open>ParseImageID\<close> splits the identifier (after the pull-scheme
  prefixes are stripped) at every \<open>@\<close> and requires exactly two parts. So it fails exactly
  when the stripped identifier does not contain exactly one \<open>@\<close>: when it is empty, when it
  has no \<open>@\<close>, and when it has two or more. When it succeeds, the digest is the text after
  the \<open>@\<close> and the full reference is the stripped identifier.
\<close>

theorem ParseImageID_one_at:
  "(case ParseImageID s of
      Inl e \<Rightarrow> count_list (stripScheme s) CHR ''@'' \<noteq> 1
    | Inr ref \<Rightarrow> count_list (stripScheme s) CHR ''@'' = 1
        \<and> Digest ref = drop 1 (dropWhile (\<lambda>c. c \<noteq> CHR ''@'') (stripScheme s))
        \<and> FullReference ref = stripScheme s)"
proof (cases "s = []")
  case True
  then show ?thesis
    by (simp add: ParseImageID_def stripScheme_def TrimPrefix_def HasPrefix_def)
next
  case False
  show ?thesis
  proof (cases "count_list (stripScheme s) CHR ''@'' = 1")
    case True
    then show ?thesis using False
      by (simp add: ParseImageID_def Let_def length_Split Split_two split: prod.splits)
  next
    case F: False
    then show ?thesis using False
      by (simp add: ParseImageID_def Let_def length_Split)
  qed
qed

theorem ParseImageID_one_at_witness:
  "count_list (stripScheme ''docker://quay.io/a:v1@sha256:ab'') CHR ''@'' = 1
   \<and> ParseImageID ''docker://quay.io/a:v1@sha256:ab'' =
       Inr \<lparr>Registry = ''quay.io'', Repository = ''a'', Tag = ''v1'', Digest = ''sha256:ab'',
            FullReference = ''quay.io/a:v1@sha256:ab''\<rparr>"
  using ParseImageID_one_at [of "''docker://quay.io/a:v1@sha256:ab''"]
  by (simp add: ParseImageID_def stripScheme_def TrimPrefix_def HasPrefix_def Let_def
      splitTag_def splitRegistry_def Cut_def Contains_def)

text \<open>
  C6 as the spec states it fails: \<open>a@b@c\<close> is not empty and has a digest segment after its
  last \<open>@\<close>, yet \<open>ParseImageID\<close> rejects it.
\<close>

theorem ParseImageID_last_at_counterexample:
  "\<not> (isl (ParseImageID ''a@b@c'') \<longleftrightarrow>
        (stripScheme ''a@b@c'' = [] \<or> \<not> Contains (stripScheme ''a@b@c'') CHR ''@''))"
  by (simp add: ParseImageID_def stripScheme_def TrimPrefix_def HasPrefix_def Let_def Contains_def)

lemma set_sanitizeLoop: "c \<in> set (sanitizeLoop n i s) \<Longrightarrow> validNameByte c"
  apply (induction n i s rule: sanitizeLoop.induct)
   apply simp
  apply (simp only: sanitizeLoop.simps Let_def)
  apply (auto simp: validNameByte_def byte_def split: if_splits)
  done

lemma set_Trim: "set (Trim s cs) \<subseteq> set s"
  unfolding Trim_def
  by (metis (no_types, lifting) set_dropWhileD set_rev subsetI)

lemma Trim_no_prefix: "c \<in> set cs \<Longrightarrow> \<not> HasPrefix (Trim s cs) [c]"
proof
  assume c: "c \<in> set cs" and h: "HasPrefix (Trim s cs) [c]"
  let ?P = "\<lambda>x. x \<in> set cs"
  let ?d = "dropWhile ?P s"
  from h obtain t where t: "Trim s cs = c # t"
    by (cases "Trim s cs") (auto simp: HasPrefix_def)
  have "Trim s cs = rev (dropWhile ?P (rev ?d))" by (simp add: Trim_def)
  then have pre: "\<exists>zs. ?d = Trim s cs @ zs"
    by (metis rev_rev_ident rev_append takeWhile_dropWhile_id)
  then obtain zs where "?d = c # t @ zs" using t by auto
  then have "\<not> ?P c" using hd_dropWhile [of ?P s] by (metis list.sel(1) list.discI)
  with c show False by simp
qed

text \<open>
  C9. For every reference (so for every parsed one) the record key is at most 253 bytes
  long, consists only of the bytes \<open>a\<close>..\<open>z\<close>, \<open>0\<close>..\<open>9\<close>, \<open>.\<close> and \<open>-\<close>, and begins with
  neither \<open>.\<close> nor \<open>-\<close>.
\<close>

theorem ReferenceToCRName_valid:
  "length (ReferenceToCRName ul ref) \<le> 253
   \<and> list_all validNameByte (ReferenceToCRName ul ref)
   \<and> \<not> HasPrefix (ReferenceToCRName ul ref) ''.''
   \<and> \<not> HasPrefix (ReferenceToCRName ul ref) ''-''"
proof -
  define raw where
    "raw = ToLower ul (ReplaceAll (Registry ref @ ''.'' @ Repository ref) CHR ''/'' CHR ''.''
       @ ''.'' @ shortDigest (Digest ref))"
  define nm where "nm = sanitizeK8sName raw"
  have r: "ReferenceToCRName ul ref = take 253 nm"
    by (simp add: ReferenceToCRName_def Let_def nm_def raw_def)
  have v: "list_all validNameByte nm"
    unfolding nm_def sanitizeK8sName_def list_all_iff
    using set_Trim set_sanitizeLoop by blast
  have d: "\<not> HasPrefix nm ''.''" and m: "\<not> HasPrefix nm ''-''"
    unfolding nm_def sanitizeK8sName_def by (rule Trim_no_prefix, simp)+
  have p: "\<And>c. HasPrefix (take 253 nm) [c] \<Longrightarrow> HasPrefix nm [c]"
    by (cases nm) (auto simp: HasPrefix_def)
  have "list_all validNameByte (take 253 nm)"
    using v by (auto simp: list_all_iff dest: in_set_takeD)
  with d m p show ?thesis unfolding r by auto
qed

theorem ReferenceToCRName_valid_witness:
  "ReferenceToCRName id \<lparr>Registry = ''Quay.IO'', Repository = ''_x/My_Img!'', Tag = [],
       Digest = ''sha256:ABC'', FullReference = []\<rparr> = ''quay.io..x.my.img-.abc''
   \<and> list_all validNameByte ''quay.io..x.my.img-.abc''"
  using ReferenceToCRName_valid [of id "\<lparr>Registry = ''Quay.IO'', Repository = ''_x/My_Img!'',
       Tag = [], Digest = ''sha256:ABC'', FullReference = []\<rparr>"]
  by code_simp

section \<open>Properties of the record store\<close>

lemma find_map_status:
  "find (\<lambda>x. ObjectName x = n)
     (map (\<lambda>x. if ObjectName x = m then x\<lparr>Status := s\<rparr> else x) xs) =
   map_option (\<lambda>x. if ObjectName x = m then x\<lparr>Status := s\<rparr> else x)
     (find (\<lambda>x. ObjectName x = n) xs)"
  by (induction xs) auto

lemma hasCR_find: "hasCR c n \<longleftrightarrow> find (\<lambda>x. ObjectName x = n) (crs c) \<noteq> None"
  by (auto simp: hasCR_def list_ex_iff find_None_iff)

lemma getCR_Inr:
  "getCR c n = Inr x \<longleftrightarrow> \<not> fault c (GetCR n) \<and> find (\<lambda>x. ObjectName x = n) (crs c) = Some x"
  by (auto simp: getCR_def split: option.splits)

lemma getCR_name: "getCR c n = Inr x \<Longrightarrow> ObjectName x = n"
  unfolding getCR_Inr using find_Some_iff [of "\<lambda>x. ObjectName x = n" "crs c" x] by blast

lemma updateStatus_stored:
  assumes "getCR c n = Inr x" and "\<not> fault c (UpdateStatus n)" and "ObjectName cr = n"
  shows "getCR (snd (updateStatus cr c)) n = Inr (x\<lparr>Status := Status cr\<rparr>)"
proof -
  from assms(1) have f: "find (\<lambda>x. ObjectName x = n) (crs c) = Some x"
    and g: "\<not> fault c (GetCR n)"
    by (auto simp: getCR_Inr)
  have nx: "ObjectName x = n" using assms(1) by (rule getCR_name)
  show ?thesis
    using f g nx assms(2,3)
    by (simp add: updateStatus_def Let_def getCR_def hasCR_find find_map_status)
qed

section \<open>Properties of the reconciler\<close>

lemma alreadyTracked_iff: "alreadyTracked refs podRef \<longleftrightarrow> podRef \<in> set refs"
  by (induction refs) auto

text \<open>
  C2. Adding a workload reference is idempotent. When \<open>updatePodReferences\<close> is given the
  record as read from the store and the status write goes through, the stored reference
  list afterwards is the old list when the triple is already a member of it (membership is
  equality of namespace, pod name and container name), and the old list with the triple
  appended once otherwise.
\<close>

theorem updatePodReferences_idempotent:
  assumes "getCR c (ObjectName cr) = Inr cr"
    and "\<not> fault c (UpdateStatus (ObjectName cr))"
  shows "\<exists>cr'. getCR (snd (updatePodReferences now cr podRef c)) (ObjectName cr) = Inr cr'
     \<and> PodReferences (Status cr') =
         (if podRef \<in> set (PodReferences (Status cr)) then PodReferences (Status cr)
          else PodReferences (Status cr) @ [podRef])
     \<and> length (PodReferences (Status cr')) =
         (if podRef \<in> set (PodReferences (Status cr)) then length (PodReferences (Status cr))
          else length (PodReferences (Status cr)) + 1)"
proof (cases "podRef \<in> set (PodReferences (Status cr))")
  case True
  let ?cr = "cr\<lparr>Status := (Status cr)\<lparr>LastSeenAt := Some now\<rparr>\<rparr>"
  have "getCR (snd (updateStatus ?cr c)) (ObjectName cr) = Inr (cr\<lparr>Status := Status ?cr\<rparr>)"
    using assms by (intro updateStatus_stored) auto
  with True show ?thesis
    by (simp add: updatePodReferences_def alreadyTracked_iff)
next
  case False
  let ?cr = "cr\<lparr>Status := (Status cr)\<lparr>PodReferences := PodReferences (Status cr) @ [podRef],
       LastSeenAt := Some now\<rparr>\<rparr>"
  have "getCR (snd (updateStatus ?cr c)) (ObjectName cr) = Inr (cr\<lparr>Status := Status ?cr\<rparr>)"
    using assms by (intro updateStatus_stored) auto
  with False show ?thesis
    by (simp add: updatePodReferences_def alreadyTracked_iff)
qed

theorem updatePodReferences_idempotent_witness:
  "getCR exampleCluster (ObjectName exampleRecord) = Inr exampleRecord
   \<and> \<not> fault exampleCluster (UpdateStatus (ObjectName exampleRecord))
   \<and> examplePodRef \<in> set (PodReferences (Status exampleRecord))
   \<and> (\<exists>cr'. getCR (snd (updatePodReferences 7 exampleRecord examplePodRef exampleCluster))
                (ObjectName exampleRecord) = Inr cr'
          \<and> length (PodReferences (Status cr')) = 3)"
proof -
  have a: "getCR exampleCluster (ObjectName exampleRecord) = Inr exampleRecord"
    by (simp add: getCR_def exampleCluster_def exampleRecord_def)
  have b: "\<not> fault exampleCluster (UpdateStatus (ObjectName exampleRecord))"
    by (simp add: exampleCluster_def)
  have m: "examplePodRef \<in> set (PodReferences (Status exampleRecord))"
    by (simp add: exampleRecord_def emptyStatus_def)
  have l: "length (PodReferences (Status exampleRecord)) = 3"
    by (simp add: exampleRecord_def emptyStatus_def)
  show ?thesis
    using updatePodReferences_idempotent [OF a b, of 7 examplePodRef] a b m l by auto
qed

lemma Split_absent: "sep \<notin> set s \<Longrightarrow> Split s sep = [s]"
  by (induction s) auto

lemma Split_at: "sep \<notin> set a \<Longrightarrow> Split (a @ sep # b) sep = a # Split b sep"
  by (induction a) auto

lemma LastIndex_absent: "sep \<notin> set s \<Longrightarrow> LastIndex s sep = None"
  by (induction s) auto

lemma hexDigits_set: "hexDigits s \<Longrightarrow> c \<in> set s \<Longrightarrow> c \<in> set ''0123456789abcdef''"
  by (simp add: hexDigits_def list_all_iff)

lemma hexDigits_not:
  assumes "hexDigits s"
  shows "CHR ''@'' \<notin> set s" "CHR '':'' \<notin> set s" "CHR ''/'' \<notin> set s"
  using hexDigits_set [OF assms] by fastforce+

lemma parse_example:
  assumes "hexDigits hex"
  shows "ParseImageID (''registry.example/ns/app@sha256:'' @ hex) =
     Inr \<lparr>Registry = ''registry.example'', Repository = ''ns/app'', Tag = [],
          Digest = ''sha256:'' @ hex,
          FullReference = ''registry.example/ns/app@sha256:'' @ hex\<rparr>"
proof -
  define img where "img = ''registry.example/ns/app@sha256:'' @ hex"
  define dig where "dig = ''sha256:'' @ hex"
  have ne: "img \<noteq> []" by (simp add: img_def)
  have s: "stripScheme img = img"
    by (simp add: stripScheme_def TrimPrefix_def HasPrefix_def img_def)
  have "CHR ''@'' \<notin> set dig"
    using hexDigits_not(1) [OF assms] by (simp add: dig_def)
  then have "Split (''registry.example/ns/app'' @ CHR ''@'' # dig) CHR ''@''
           = [''registry.example/ns/app'', dig]"
    by (subst Split_at) (simp_all add: Split_absent)
  moreover have "img = ''registry.example/ns/app'' @ CHR ''@'' # dig"
    by (simp add: img_def dig_def)
  ultimately have p: "Split img CHR ''@'' = [''registry.example/ns/app'', dig]"
    by (simp only:)
  have t: "splitTag ''registry.example/ns/app'' = ([], ''registry.example/ns/app'')"
    by (simp add: splitTag_def)
  have r: "splitRegistry ''registry.example/ns/app'' = (''registry.example'', ''ns/app'')"
    by (simp add: splitRegistry_def Cut_def Contains_def)
  have "ParseImageID img =
     Inr \<lparr>Registry = ''registry.example'', Repository = ''ns/app'', Tag = [],
          Digest = dig, FullReference = img\<rparr>"
    unfolding ParseImageID_def by (simp add: ne s p t r Let_def)
  then show ?thesis by (simp only: img_def dig_def)
qed

lemma validNameByte_ascii: "validNameByte c \<Longrightarrow> byte c < 128 \<and> lowerByte c = c"
  by (auto simp: validNameByte_def lowerByte_def byte_def)

lemma sanitizeLoop_valid: "list_all validNameByte s \<Longrightarrow> sanitizeLoop n i s = s"
proof (induction s arbitrary: i)
  case Nil
  then show ?case by simp
next
  case (Cons c cs)
  then have "byte c < 128" "validNameByte c" using validNameByte_ascii by auto
  with Cons show ?case by (simp add: Let_def)
qed

lemma Trim_id:
  assumes "s \<noteq> []" and "hd s \<notin> set cs" and "last s \<notin> set cs"
  shows "Trim s cs = s"
proof -
  have a: "dropWhile (\<lambda>c. c \<in> set cs) s = s"
    using assms(1,2) by (cases s) auto
  have "rev s \<noteq> []" "hd (rev s) \<notin> set cs"
    using assms(1,3) by (simp_all add: hd_rev)
  then have "dropWhile (\<lambda>c. c \<in> set cs) (rev s) = rev s"
    by (cases "rev s") simp_all
  with a show ?thesis by (simp add: Trim_def)
qed

lemma hexDigit_valid:
  assumes "c \<in> set ''0123456789abcdef''"
  shows "validNameByte c"
proof -
  have "list_all validNameByte ''0123456789abcdef''"
    by (simp add: validNameByte_def byte_def)
  then have "\<forall>x\<in>set ''0123456789abcdef''. validNameByte x"
    by (simp only: list_all_iff)
  then show ?thesis using assms by (rule bspec)
qed

lemma hex_valid: "hexDigits s \<Longrightarrow> list_all validNameByte s"
  using hexDigit_valid hexDigits_set unfolding list_all_iff by blast

lemma hexDigits_not_name:
  assumes "c \<in> set ''0123456789abcdef''"
  shows "c \<noteq> CHR ''.''" "c \<noteq> CHR ''-''"
  using assms by fastforce+

lemma crName_example:
  assumes hex: "hexDigits hex" and len: "length hex = 64"
  shows "ReferenceToCRName ul \<lparr>Registry = ''registry.example'', Repository = ''ns/app'', Tag = t,
          Digest = ''sha256:'' @ hex, FullReference = f\<rparr>
         = ''registry.example.ns.app.'' @ take 8 hex"
proof -
  define nm where "nm = ''registry.example.ns.app.'' @ take 8 hex"
  define dig where "dig = ''sha256:'' @ hex"
  have h8: "hexDigits (take 8 hex)"
    using hex unfolding hexDigits_def list_all_iff by (blast dest: in_set_takeD)
  have sd: "shortDigest dig = take 8 hex"
    using len by (simp add: shortDigest_def CutPrefix_def HasPrefix_def dig_def)
  have rp: "ReplaceAll (''registry.example'' @ ''.'' @ ''ns/app'') CHR ''/'' CHR ''.''
          = ''registry.example.ns.app''"
    by (simp add: ReplaceAll_def)
  have e: "''registry.example.ns.app'' @ ''.'' @ take 8 hex = nm"
    by (simp add: nm_def)
  have "list_all validNameByte ''registry.example.ns.app.''"
    by (simp add: validNameByte_def byte_def)
  then have v: "list_all validNameByte nm"
    using hex_valid [OF h8] by (simp add: nm_def)
  then have a: "isASCII nm" and l: "map lowerByte nm = nm"
    using validNameByte_ascii by (auto simp: isASCII_def list_all_iff intro: map_idI)
  have low: "ToLower ul nm = nm" by (simp add: ToLower_def a l)
  have ne: "nm \<noteq> []" by (simp add: nm_def)
  have hd: "hd nm = CHR ''r''" by (simp add: nm_def)
  have t8: "take 8 hex \<noteq> []" using len by auto
  then have "last nm = last (take 8 hex)" by (simp add: nm_def)
  moreover have "last (take 8 hex) \<in> set (take 8 hex)"
    using t8 by (rule last_in_set)
  ultimately have "last nm \<in> set ''0123456789abcdef''"
    using hexDigits_set [OF h8] by simp
  then have "last nm \<noteq> CHR ''.''" "last nm \<noteq> CHR ''-''"
    using hexDigits_not_name by blast+
  then have la: "last nm \<notin> set ''.-''" by simp
  have san: "sanitizeK8sName nm = nm"
    unfolding sanitizeK8sName_def sanitizeLoop_valid [OF v]
    using ne hd la by (intro Trim_id) simp_all
  have ln: "\<not> length nm > 253" by (simp add: nm_def)
  have "ReferenceToCRName ul \<lparr>Registry = ''registry.example'', Repository = ''ns/app'', Tag = t,
          Digest = dig, FullReference = f\<rparr> = nm"
    unfolding ReferenceToCRName_def Let_def
    by (simp only: Reference.select_convs rp sd e low san ln if_False)
  then show ?thesis by (simp only: nm_def dig_def)
qed

lemma example_not_RedHat: "\<not> IsRedHatRegistry ul ''registry.example''"
proof -
  have "ToLower ul ''registry.example'' = ''registry.example''"
    by (simp add: ToLower_def isASCII_def lowerByte_def byte_def)
  then show ?thesis
    by (simp add: IsRedHatRegistry_def ClassifyRegistry_def Let_def
        HasSuffix_def HasPrefix_def)
qed

lemma createCR_fresh:
  assumes "getCR c (ObjectName cr) = Inl NotFound" and "\<not> fault c (CreateCR (ObjectName cr))"
  shows "createCR cr c =
     (None, c\<lparr>writes := writes c @ [CreateCR (ObjectName cr)],
              crs := crs c @ [cr\<lparr>Status := emptyStatus\<rparr>]\<rparr>)"
proof -
  from assms(1) have "find (\<lambda>x. ObjectName x = ObjectName cr) (crs c) = None"
    by (auto simp: getCR_def split: if_splits option.splits)
  then have "\<not> hasCR c (ObjectName cr)" by (simp add: hasCR_find)
  with assms(2) show ?thesis by (simp add: createCR_def Let_def)
qed

lemma updateStatus_last:
  assumes "getCR c n = Inl NotFound" and "\<not> fault c (UpdateStatus n)" and "ObjectName cr = n"
    and "ObjectName x = n"
  shows "updateStatus cr (c\<lparr>writes := w, crs := crs c @ [x]\<rparr>) =
     (None, c\<lparr>writes := w @ [UpdateStatus n], crs := crs c @ [x\<lparr>Status := Status cr\<rparr>]\<rparr>)"
proof -
  from assms(1) have "find (\<lambda>x. ObjectName x = n) (crs c) = None"
    by (auto simp: getCR_def split: if_splits option.splits)
  then have "\<And>y. y \<in> set (crs c) \<Longrightarrow> ObjectName y \<noteq> n"
    by (simp add: find_None_iff)
  then have "map (\<lambda>y. if ObjectName y = n then y\<lparr>Status := Status cr\<rparr> else y) (crs c) = crs c"
    by (intro map_idI) simp
  then show ?thesis
    using assms(2,3,4) by (simp add: updateStatus_def Let_def hasCR_def)
qed

lemma createImageCertificationInfo_fresh:
  assumes a: "getCR c crName = Inl NotFound"
    and f1: "\<not> fault c (CreateCR crName)" and f2: "\<not> fault c (UpdateStatus crName)"
    and nr: "\<not> IsRedHatRegistry (unicodeLower e) (Registry ref)"
  shows "fst (createImageCertificationInfo e r now ref crName podRef c) = None
     \<and> spawned (snd (createImageCertificationInfo e r now ref crName podRef c)) = spawned c
     \<and> (\<exists>rec. crs (snd (createImageCertificationInfo e r now ref crName podRef c))
                 = crs c @ [rec]
            \<and> ObjectName rec = crName
            \<and> CertificationStatus (Status rec) = CertificationStatusUnknown
            \<and> PodReferences (Status rec) = [podRef])"
proof -
  let ?cr = "\<lparr>ObjectName = crName, Annotations = Map.empty,
                Spec = \<lparr>ImageDigest = Digest ref, FullImageReference = FullReference ref,
                         SpecRegistry = Registry ref, SpecRepository = Repository ref,
                         SpecTag = Tag ref\<rparr>,
                Status = emptyStatus\<rparr>"
  have c1: "createCR ?cr c =
     (None, c\<lparr>writes := writes c @ [CreateCR crName],
              crs := crs c @ [?cr\<lparr>Status := emptyStatus\<rparr>]\<rparr>)"
    using createCR_fresh [of c ?cr] a f1 by simp
  show ?thesis
    unfolding createImageCertificationInfo_def Let_def c1
    using updateStatus_last [OF a f2, where x = "?cr\<lparr>Status := emptyStatus\<rparr>"] nr
    by (simp add: recordEvent_def)
qed

text \<open>
  C1. Take a pod that is Running or Pending and has one container status, whose image
  identifier is \<open>registry.example/ns/app@sha256:\<close> followed by the 64 hexadecimal digits
  of a digest (lowercase, as digests are written), and a cluster with no record under the
  derived key (and no failure of the create and the status write). One pass of \<open>Reconcile\<close> succeeds and adds exactly one record: its name is
  \<open>registry.example.ns.app.\<close> followed by the first 8 digits, its certification status is
  Unknown, and its pod references are the single triple of the pod's namespace, the pod's
  name and the container's name. No enrichment is started, the registry not being a Red
  Hat one.
\<close>

theorem Reconcile_creates_record:
  assumes hex: "hexDigits hex" and len: "length hex = 64"
    and pod: "getPod c ns name = Inr pod"
    and phase: "Phase pod = PodRunning \<or> Phase pod = PodPending"
    and one: "ContainerStatuses pod @ InitContainerStatuses pod = [containerStatus]"
    and img: "ImageID containerStatus = ''registry.example/ns/app@sha256:'' @ hex"
    and absent: "getCR c (''registry.example.ns.app.'' @ take 8 hex) = Inl NotFound"
    and f1: "\<not> fault c (CreateCR (''registry.example.ns.app.'' @ take 8 hex))"
    and f2: "\<not> fault c (UpdateStatus (''registry.example.ns.app.'' @ take 8 hex))"
  shows "fst (Reconcile e r now ns name c) = None
     \<and> spawned (snd (Reconcile e r now ns name c)) = spawned c
     \<and> (\<exists>rec. crs (snd (Reconcile e r now ns name c)) = crs c @ [rec]
            \<and> ObjectName rec = ''registry.example.ns.app.'' @ take 8 hex
            \<and> CertificationStatus (Status rec) = CertificationStatusUnknown
            \<and> PodReferences (Status rec) =
                 [\<lparr>Namespace = PodNamespace pod, Name = PodName pod,
                   Container = ContainerName containerStatus\<rparr>])"
proof -
  define key where "key = ''registry.example.ns.app.'' @ take 8 hex"
  define image where "image = ''registry.example/ns/app@sha256:'' @ hex"
  define ref where "ref = \<lparr>Registry = ''registry.example'', Repository = ''ns/app'', Tag = [],
          Digest = ''sha256:'' @ hex, FullReference = image\<rparr>"
  define podRef where "podRef = \<lparr>Namespace = PodNamespace pod, Name = PodName pod,
                   Container = ContainerName containerStatus\<rparr>"
  have ne: "image \<noteq> []" by (simp add: image_def)
  have p: "ParseImageID image = Inr ref"
    unfolding image_def ref_def by (rule parse_example [OF hex])
  have k: "ReferenceToCRName (unicodeLower e) ref = key"
    unfolding ref_def key_def by (rule crName_example [OF hex len])
  have nr: "\<not> IsRedHatRegistry (unicodeLower e) (Registry ref)"
    using example_not_RedHat by (simp add: ref_def)
  have step: "reconcileContainer e r now pod c containerStatus =
              snd (createImageCertificationInfo e r now ref key podRef c)"
    unfolding reconcileContainer_def img image_def [symmetric]
    using ne p k absent by (simp add: Let_def podRef_def key_def)
  have "Reconcile e r now ns name c = (None, reconcileContainer e r now pod c containerStatus)"
    using pod phase one by (auto simp: Reconcile_def)
  then show ?thesis
    unfolding step
    using createImageCertificationInfo_fresh [OF absent [folded key_def]
        f1 [folded key_def] f2 [folded key_def] nr, of r now podRef]
    by (simp add: key_def podRef_def)
qed

theorem Reconcile_creates_record_witness:
  "hexDigits exampleHex \<and> length exampleHex = 64
   \<and> getPod exampleCluster ''default'' ''web'' = Inr examplePod
   \<and> Phase examplePod = PodRunning
   \<and> getCR exampleCluster (''registry.example.ns.app.'' @ take 8 exampleHex) = Inl NotFound
   \<and> fst (Reconcile exampleEnv exampleReconciler 5 ''default'' ''web'' exampleCluster) = None
   \<and> (\<exists>rec. crs (snd (Reconcile exampleEnv exampleReconciler 5 ''default'' ''web'' exampleCluster))
               = crs exampleCluster @ [rec]
          \<and> ObjectName rec = ''registry.example.ns.app.01234567''
          \<and> CertificationStatus (Status rec) = CertificationStatusUnknown
          \<and> PodReferences (Status rec) = [examplePodRef])"
proof -
  have h: "hexDigits exampleHex" and l: "length exampleHex = 64"
    by (simp_all add: hexDigits_def exampleHex_def)
  have p: "getPod exampleCluster ''default'' ''web'' = Inr examplePod"
    by (simp add: getPod_def exampleCluster_def examplePod_def)
  have ph: "Phase examplePod = PodRunning \<or> Phase examplePod = PodPending"
    by (simp add: examplePod_def)
  have one: "ContainerStatuses examplePod @ InitContainerStatuses examplePod
             = [\<lparr>ContainerName = ''app'', ImageID = ''registry.example/ns/app@sha256:'' @ exampleHex\<rparr>]"
    by (simp add: examplePod_def exampleHex_def)
  have img: "ImageID \<lparr>ContainerName = ''app'', ImageID = ''registry.example/ns/app@sha256:'' @ exampleHex\<rparr>
             = ''registry.example/ns/app@sha256:'' @ exampleHex"
    by simp
  have t8: "take 8 exampleHex = ''01234567''" by (simp add: exampleHex_def)
  have a: "getCR exampleCluster (''registry.example.ns.app.'' @ take 8 exampleHex) = Inl NotFound"
    by (simp add: t8 getCR_def exampleCluster_def exampleRecord_def)
  have f1: "\<not> fault exampleCluster (CreateCR (''registry.example.ns.app.'' @ take 8 exampleHex))"
    and f2: "\<not> fault exampleCluster (UpdateStatus (''registry.example.ns.app.'' @ take 8 exampleHex))"
    by (simp_all add: exampleCluster_def)
  have pr: "\<lparr>Namespace = PodNamespace examplePod, Name = PodName examplePod,
             Container = ContainerName \<lparr>ContainerName = ''app'',
               ImageID = ''registry.example/ns/app@sha256:'' @ exampleHex\<rparr>\<rparr> = examplePodRef"
    by (simp add: examplePod_def examplePodRef_def)
  have k: "''registry.example.ns.app.'' @ take 8 exampleHex = ''registry.example.ns.app.01234567''"
    by (simp add: t8)
  from Reconcile_creates_record [OF h l p ph one img a f1 f2, of exampleEnv exampleReconciler 5]
  show ?thesis
    unfolding pr k using h l p a k by (simp add: examplePod_def)
qed

lemma find_map_name:
  "(\<And>x. ObjectName (f x) = ObjectName x) \<Longrightarrow>
   find (\<lambda>x. ObjectName x = n) (map f xs) = map_option f (find (\<lambda>x. ObjectName x = n) xs)"
  by (induction xs) auto

lemma getCR_cong: "crs c' = crs c \<Longrightarrow> fault c' = fault c \<Longrightarrow> getCR c' n = getCR c n"
  by (simp add: getCR_def)

lemma fault_updateStatus [simp]: "fault (snd (updateStatus cr c)) = fault c"
  by (simp add: updateStatus_def Let_def)

lemma fault_updateCR [simp]: "fault (snd (updateCR cr c)) = fault c"
  by (simp add: updateCR_def Let_def)

lemma recordEvents_frame:
  "crs (foldl (\<lambda>c ev. recordEvent r ev c) c evs) = crs c
   \<and> fault (foldl (\<lambda>c ev. recordEvent r ev c) c evs) = fault c"
  by (induction evs arbitrary: c) (auto simp: recordEvent_def)

lemma updateCR_stored:
  assumes "getCR c n = Inr x" and "ObjectName cr = n"
  shows "getCR (snd (updateCR cr c)) n =
           Inr (if fault c (UpdateCR n) then x
                else x\<lparr>Annotations := Annotations cr, Spec := Spec cr\<rparr>)"
proof -
  from assms(1) have f: "find (\<lambda>x. ObjectName x = n) (crs c) = Some x"
    and g: "\<not> fault c (GetCR n)"
    by (auto simp: getCR_Inr)
  have nx: "ObjectName x = n" using assms(1) by (rule getCR_name)
  let ?f = "\<lambda>x. if ObjectName x = n
                 then x\<lparr>Annotations := Annotations cr, Spec := Spec cr\<rparr> else x"
  have "find (\<lambda>x. ObjectName x = n) (map ?f (crs c)) = Some (?f x)"
    using f by (simp add: find_map_name)
  then show ?thesis
    using f g nx assms(2) by (simp add: updateCR_def Let_def getCR_def hasCR_find)
qed

lemma updateCVEAnnotation_stored:
  assumes "getCR c n = Inr x"
  shows "getCR (updateCVEAnnotation n cves c) n =
           Inr (if fault c (UpdateCR n) then x
                else x\<lparr>Annotations :=
                       (Annotations x)(''security.telco.openshift.io/cves'' \<mapsto> Join cves '','')\<rparr>)"
proof -
  let ?cr = "x\<lparr>Annotations :=
               (Annotations x)(''security.telco.openshift.io/cves'' \<mapsto> Join cves '','')\<rparr>"
  have n: "ObjectName ?cr = n" using getCR_name [OF assms] by simp
  show ?thesis
    using updateCR_stored [OF assms n] assms by (simp add: updateCVEAnnotation_def)
qed

text \<open>
  The record that \<open>checkPyxisCertification\<close> leaves in the store after a lookup that
  found certification data.
\<close>

lemma checkPyxisCertification_data_stored:
  assumes "PyxisClient r = Some lookup"
    and "lookup (Registry ref) (Repository ref) (Digest ref) = Inr (Some certData)"
    and "getCR c crName = Inr cr"
    and "\<not> fault c (UpdateStatus crName)"
  shows "getCR (checkPyxisCertification e r now crName ref c) crName =
     Inr (cr\<lparr>Status := certifiedStatus e now certData
                            ((Status cr)\<lparr>LastPyxisCheckAt := Some now\<rparr>),
              Annotations :=
                (if cdCVEs certData \<noteq> [] \<and> \<not> fault c (UpdateCR crName)
                 then (Annotations cr)(''security.telco.openshift.io/cves''
                                         \<mapsto> Join (cdCVEs certData) '','')
                 else Annotations cr)\<rparr>)"
proof -
  let ?st = "certifiedStatus e now certData ((Status cr)\<lparr>LastPyxisCheckAt := Some now\<rparr>)"
  let ?cr = "cr\<lparr>Status := ?st\<rparr>"
  let ?c1 = "foldl (\<lambda>c ev. recordEvent r ev c) c (certificationEvents e now crName certData)"
  let ?c2 = "snd (updateStatus ?cr ?c1)"
  have n: "ObjectName ?cr = crName" using getCR_name [OF assms(3)] by simp
  have "getCR ?c1 crName = getCR c crName"
    by (rule getCR_cong) (simp_all add: recordEvents_frame)
  then have g1: "getCR ?c1 crName = Inr cr"
    using assms(3) by simp
  have f1: "\<not> fault ?c1 (UpdateStatus crName)"
    using assms(4) by (simp add: recordEvents_frame)
  have g2: "getCR ?c2 crName = Inr ?cr"
    using updateStatus_stored [OF g1 f1 n] by simp
  have f2: "fault ?c2 (UpdateCR crName) = fault c (UpdateCR crName)"
    by (simp add: recordEvents_frame)
  have r: "checkPyxisCertification e r now crName ref c =
           (if cdCVEs certData \<noteq> [] then updateCVEAnnotation crName (cdCVEs certData) ?c2
            else ?c2)"
    using assms by (simp add: checkPyxisCertification_def Let_def)
  show ?thesis
  proof (cases "cdCVEs certData \<noteq> []")
    case True
    then show ?thesis
      unfolding r using updateCVEAnnotation_stored [OF g2, of "cdCVEs certData"] f2
      by (cases "fault c (UpdateCR crName)") simp_all
  next
    case False
    then show ?thesis unfolding r using g2 by simp
  qed
qed

lemma example_getCR: "getCR exampleCluster ''img'' = Inr exampleRecord"
  by (simp add: getCR_def exampleCluster_def exampleRecord_def)

text \<open>
  C4. When the lookup fails, and the record exists and its status write goes through, the
  stored record afterwards is the record as it was with the certification status set to
  Error and the time of the check recorded: the enrichment payload, and every other field,
  is as before.
\<close>

theorem checkPyxisCertification_error:
  assumes "PyxisClient r = Some lookup"
    and "lookup (Registry ref) (Repository ref) (Digest ref) = Inl err"
    and "getCR c crName = Inr cr"
    and "\<not> fault c (UpdateStatus crName)"
  shows "\<exists>cr'. getCR (checkPyxisCertification e r now crName ref c) crName = Inr cr'
     \<and> CertificationStatus (Status cr') = CertificationStatusError
     \<and> LastPyxisCheckAt (Status cr') = Some now
     \<and> PyxisData (Status cr') = PyxisData (Status cr)
     \<and> cr' = cr\<lparr>Status := (Status cr)\<lparr>LastPyxisCheckAt := Some now,
                                        CertificationStatus := CertificationStatusError\<rparr>\<rparr>"
proof -
  let ?cr = "cr\<lparr>Status := (Status cr)\<lparr>LastPyxisCheckAt := Some now,
                                      CertificationStatus := CertificationStatusError\<rparr>\<rparr>"
  have n: "ObjectName ?cr = crName" using getCR_name [OF assms(3)] by simp
  have "getCR (snd (updateStatus ?cr c)) crName = Inr (cr\<lparr>Status := Status ?cr\<rparr>)"
    using assms(3,4) n by (rule updateStatus_stored)
  then show ?thesis
    using assms by (simp add: checkPyxisCertification_def)
qed

theorem checkPyxisCertification_error_witness:
  "PyxisClient exampleReconciler \<noteq> None
   \<and> getCR exampleCluster ''img'' = Inr exampleRecord
   \<and> \<not> fault exampleCluster (UpdateStatus ''img'')
   \<and> (\<exists>cr'. getCR (checkPyxisCertification exampleEnv exampleReconciler 9 ''img''
               (exampleRef ''sha256:bad'') exampleCluster) ''img'' = Inr cr'
          \<and> CertificationStatus (Status cr') = CertificationStatusError
          \<and> LastPyxisCheckAt (Status cr') = Some 9
          \<and> PyxisData (Status cr') = PyxisData (Status exampleRecord))"
proof -
  obtain lookup where l: "PyxisClient exampleReconciler = Some lookup"
    and b: "lookup (Registry (exampleRef ''sha256:bad'')) (Repository (exampleRef ''sha256:bad''))
              (Digest (exampleRef ''sha256:bad'')) = Inl (LookupError ''timeout'')"
    by (simp add: exampleReconciler_def exampleRef_def)
  have f: "\<not> fault exampleCluster (UpdateStatus ''img'')"
    by (simp add: exampleCluster_def)
  show ?thesis
    using checkPyxisCertification_error [OF l b example_getCR f, of exampleEnv 9]
      l example_getCR f by simp
qed

lemma example_enriched_getCR: "getCR exampleEnrichedCluster ''img'' = Inr exampleEnrichedRecord"
  by (simp add: getCR_def exampleEnrichedCluster_def exampleCluster_def
      exampleEnrichedRecord_def exampleRecord_def)

text \<open>
  C3, as the code has it. When the lookup answers without error, and the record exists and
  its status write goes through, then whatever the record's status and payload were before:
  with certification data the status becomes Certified and the payload in the status is
  replaced wholesale, every one of its fields being the field of the new data (the two
  dates are the parsed ones, absent when the text is empty or does not parse); the CVE
  list, kept in an annotation, is replaced by the new list when the new list is not empty
  and the object write goes through, and is left as it was when the new list is empty.
  With no data the status becomes NotCertified.
\<close>

theorem checkPyxisCertification_success:
  assumes "PyxisClient r = Some lookup"
    and "lookup (Registry ref) (Repository ref) (Digest ref) = Inr answer"
    and "getCR c crName = Inr cr"
    and "\<not> fault c (UpdateStatus crName)"
  shows "\<exists>cr'. getCR (checkPyxisCertification e r now crName ref c) crName = Inr cr'
     \<and> (case answer of
           None \<Rightarrow> CertificationStatus (Status cr') = CertificationStatusNotCertified
         | Some certData \<Rightarrow>
             CertificationStatus (Status cr') = CertificationStatusCertified
             \<and> PyxisData (Status cr') =
                 Some \<lparr>ProjectID = cdProjectID certData,
                       Publisher = cdPublisher certData,
                       HealthIndex = cdHealthIndex certData,
                       CatalogURL = cdCatalogURL certData,
                       PublishedAt =
                         (if cdPublishedAt certData = [] then None
                          else parseRFC3339 e (cdPublishedAt certData)),
                       Vulnerabilities = cdVulnerabilities certData,
                       EOLDate =
                         (if cdEOLDate certData = [] then None
                          else if parseRFC3339 e (cdEOLDate certData) = None
                          then parseDate e (cdEOLDate certData)
                          else parseRFC3339 e (cdEOLDate certData)),
                       ReleaseCategory = cdReleaseCategory certData,
                       ReplacedBy = cdReplacedBy certData,
                       Architectures = cdArchitectures certData,
                       CompressedSizeBytes = cdCompressedSizeBytes certData,
                       AutoRebuildEnabled = cdAutoRebuildEnabled certData,
                       ArchitectureHealth = cdArchitectureHealth certData,
                       UncompressedSizeBytes = cdUncompressedSizeBytes certData,
                       LayerCount = cdLayerCount certData,
                       BuildDate = cdBuildDate certData,
                       AdvisoryIDs = cdAdvisoryIDs certData\<rparr>
             \<and> (cdCVEs certData \<noteq> [] \<and> \<not> fault c (UpdateCR crName) \<longrightarrow>
                  Annotations cr' =
                    (Annotations cr)(''security.telco.openshift.io/cves''
                                       \<mapsto> Join (cdCVEs certData) '',''))
             \<and> (cdCVEs certData = [] \<longrightarrow> Annotations cr' = Annotations cr))"
proof (cases answer)
  case None
  let ?cr = "cr\<lparr>Status := (Status cr)\<lparr>LastPyxisCheckAt := Some now,
                CertificationStatus := CertificationStatusNotCertified\<rparr>\<rparr>"
  have n: "ObjectName ?cr = crName" using getCR_name [OF assms(3)] by simp
  have "getCR (snd (updateStatus ?cr c)) crName = Inr (cr\<lparr>Status := Status ?cr\<rparr>)"
    using assms(3,4) n by (rule updateStatus_stored)
  then show ?thesis
    using assms None by (simp add: checkPyxisCertification_def)
next
  case (Some certData)
  have v: "(case cdVulnerabilities certData of
              None \<Rightarrow> None
            | Some v \<Rightarrow> Some \<lparr>Critical = Critical v, Important = Important v,
                               Moderate = Moderate v, Low = Low v\<rparr>)
           = cdVulnerabilities certData"
    by (cases "cdVulnerabilities certData") simp_all
  have st: "CertificationStatus (certifiedStatus e now certData st0) = CertificationStatusCertified"
    "PyxisData (certifiedStatus e now certData st0) = Some (newPyxisData e certData)" for st0
    by (simp_all add: certifiedStatus_def Let_def split: option.splits)
  show ?thesis
    using checkPyxisCertification_data_stored [OF assms(1) assms(2) [unfolded Some] assms(3,4),
        of e now] Some
    by (simp add: st newPyxisData_def v split: option.splits)
qed

theorem checkPyxisCertification_success_witness:
  "(\<exists>cr'. getCR (checkPyxisCertification exampleEnv exampleReconciler 9 ''img''
               (exampleRef ''sha256:ab'') exampleEnrichedCluster) ''img'' = Inr cr'
        \<and> CertificationStatus (Status cr') = CertificationStatusCertified
        \<and> PyxisData (Status cr') =
            Some \<lparr>ProjectID = ''p1'', Publisher = ''Red Hat'', HealthIndex = ''A'',
                  CatalogURL = [], PublishedAt = None,
                  Vulnerabilities = Some \<lparr>Critical = 0, Important = 1, Moderate = 0, Low = 2\<rparr>,
                  EOLDate = None, ReleaseCategory = [], ReplacedBy = [],
                  Architectures = [''amd64''], CompressedSizeBytes = 10,
                  AutoRebuildEnabled = False, ArchitectureHealth = Map.empty,
                  UncompressedSizeBytes = 20, LayerCount = 3, BuildDate = [],
                  AdvisoryIDs = []\<rparr>
        \<and> Annotations cr' ''security.telco.openshift.io/cves'' = Some ''CVE-2024-0001'')
   \<and> (\<exists>cr'. getCR (checkPyxisCertification exampleEnv exampleReconciler 9 ''img''
               (exampleRef ''sha256:none'') exampleEnrichedCluster) ''img'' = Inr cr'
        \<and> CertificationStatus (Status cr') = CertificationStatusNotCertified)"
proof -
  obtain lookup where l: "PyxisClient exampleReconciler = Some lookup"
    and a: "lookup (Registry (exampleRef ''sha256:ab'')) (Repository (exampleRef ''sha256:ab''))
              (Digest (exampleRef ''sha256:ab'')) = Inr (Some exampleCertData)"
    and b: "lookup (Registry (exampleRef ''sha256:none'')) (Repository (exampleRef ''sha256:none''))
              (Digest (exampleRef ''sha256:none'')) = Inr None"
    by (simp add: exampleReconciler_def exampleRef_def)
  have f: "\<not> fault exampleEnrichedCluster (UpdateStatus ''img'')"
    "\<not> fault exampleEnrichedCluster (UpdateCR ''img'')"
    by (simp_all add: exampleEnrichedCluster_def exampleCluster_def)
  have d: "cdCVEs exampleCertData = [''CVE-2024-0001'']"
    by (simp add: exampleCertData_def)
  from checkPyxisCertification_success [OF l a example_enriched_getCR f(1), of exampleEnv 9]
  obtain cr1 where c1: "getCR (checkPyxisCertification exampleEnv exampleReconciler 9 ''img''
               (exampleRef ''sha256:ab'') exampleEnrichedCluster) ''img'' = Inr cr1"
    and s1: "CertificationStatus (Status cr1) = CertificationStatusCertified"
    and p1: "PyxisData (Status cr1) =
                 Some \<lparr>ProjectID = cdProjectID exampleCertData,
                       Publisher = cdPublisher exampleCertData,
                       HealthIndex = cdHealthIndex exampleCertData,
                       CatalogURL = cdCatalogURL exampleCertData,
                       PublishedAt =
                         (if cdPublishedAt exampleCertData = [] then None
                          else parseRFC3339 exampleEnv (cdPublishedAt exampleCertData)),
                       Vulnerabilities = cdVulnerabilities exampleCertData,
                       EOLDate =
                         (if cdEOLDate exampleCertData = [] then None
                          else if parseRFC3339 exampleEnv (cdEOLDate exampleCertData) = None
                          then parseDate exampleEnv (cdEOLDate exampleCertData)
                          else parseRFC3339 exampleEnv (cdEOLDate exampleCertData)),
                       ReleaseCategory = cdReleaseCategory exampleCertData,
                       ReplacedBy = cdReplacedBy exampleCertData,
                       Architectures = cdArchitectures exampleCertData,
                       CompressedSizeBytes = cdCompressedSizeBytes exampleCertData,
                       AutoRebuildEnabled = cdAutoRebuildEnabled exampleCertData,
                       ArchitectureHealth = cdArchitectureHealth exampleCertData,
                       UncompressedSizeBytes = cdUncompressedSizeBytes exampleCertData,
                       LayerCount = cdLayerCount exampleCertData,
                       BuildDate = cdBuildDate exampleCertData,
                       AdvisoryIDs = cdAdvisoryIDs exampleCertData\<rparr>"
    and a1: "Annotations cr1 =
               (Annotations exampleEnrichedRecord)(''security.telco.openshift.io/cves''
                                       \<mapsto> Join (cdCVEs exampleCertData) '','')"
    using f(2) d by auto
  have w1: "PyxisData (Status cr1) =
            Some \<lparr>ProjectID = ''p1'', Publisher = ''Red Hat'', HealthIndex = ''A'',
                  CatalogURL = [], PublishedAt = None,
                  Vulnerabilities = Some \<lparr>Critical = 0, Important = 1, Moderate = 0, Low = 2\<rparr>,
                  EOLDate = None, ReleaseCategory = [], ReplacedBy = [],
                  Architectures = [''amd64''], CompressedSizeBytes = 10,
                  AutoRebuildEnabled = False, ArchitectureHealth = Map.empty,
                  UncompressedSizeBytes = 20, LayerCount = 3, BuildDate = [],
                  AdvisoryIDs = []\<rparr>"
    unfolding p1 by (simp add: exampleCertData_def)
  have w2: "Annotations cr1 ''security.telco.openshift.io/cves'' = Some ''CVE-2024-0001''"
    unfolding a1 by (simp add: d)
  from checkPyxisCertification_success [OF l b example_enriched_getCR f(1), of exampleEnv 9]
  obtain cr2 where c2: "getCR (checkPyxisCertification exampleEnv exampleReconciler 9 ''img''
               (exampleRef ''sha256:none'') exampleEnrichedCluster) ''img'' = Inr cr2"
    and s2: "CertificationStatus (Status cr2) = CertificationStatusNotCertified"
    by auto
  show ?thesis using c1 s1 w1 w2 c2 s2 by blast
qed

text \<open>
  C3 as the spec states it fails for the CVE list, which the spec counts among the
  enrichment payload. \<open>exampleEnrichedRecord\<close> holds an older CVE list; the lookup for
  \<open>sha256:nocve\<close> answers with data whose CVE list is empty; after the enrichment the record
  is Certified and still holds the older list.
\<close>

theorem checkPyxisCertification_stale_cves_counterexample:
  "\<exists>lookup cr'.
     PyxisClient exampleReconciler = Some lookup
     \<and> lookup ''quay.io'' ''a'' ''sha256:nocve'' = Inr (Some (exampleCertData\<lparr>cdCVEs := []\<rparr>))
     \<and> cdCVEs (exampleCertData\<lparr>cdCVEs := []\<rparr>) = []
     \<and> getCR (checkPyxisCertification exampleEnv exampleReconciler 9 ''img''
                (exampleRef ''sha256:nocve'') exampleEnrichedCluster) ''img'' = Inr cr'
     \<and> CertificationStatus (Status cr') = CertificationStatusCertified
     \<and> Annotations cr' ''security.telco.openshift.io/cves'' = Some ''CVE-OLD-1,CVE-OLD-2''"
proof -
  obtain lookup where l: "PyxisClient exampleReconciler = Some lookup"
    and a: "lookup ''quay.io'' ''a'' ''sha256:nocve'' = Inr (Some (exampleCertData\<lparr>cdCVEs := []\<rparr>))"
    by (simp add: exampleReconciler_def)
  have a': "lookup (Registry (exampleRef ''sha256:nocve'')) (Repository (exampleRef ''sha256:nocve''))
              (Digest (exampleRef ''sha256:nocve'')) = Inr (Some (exampleCertData\<lparr>cdCVEs := []\<rparr>))"
    using a by (simp add: exampleRef_def)
  have f: "\<not> fault exampleEnrichedCluster (UpdateStatus ''img'')"
    by (simp add: exampleEnrichedCluster_def exampleCluster_def)
  have g: "getCR (checkPyxisCertification exampleEnv exampleReconciler 9 ''img''
                (exampleRef ''sha256:nocve'') exampleEnrichedCluster) ''img'' =
           Inr (exampleEnrichedRecord
                  \<lparr>Status := certifiedStatus exampleEnv 9 (exampleCertData\<lparr>cdCVEs := []\<rparr>)
                     ((Status exampleEnrichedRecord)\<lparr>LastPyxisCheckAt := Some 9\<rparr>),
                   Annotations := Annotations exampleEnrichedRecord\<rparr>)"
    using checkPyxisCertification_data_stored [OF l a' example_enriched_getCR f, of exampleEnv 9]
    by simp
  have s: "CertificationStatus (certifiedStatus exampleEnv 9 (exampleCertData\<lparr>cdCVEs := []\<rparr>)
             ((Status exampleEnrichedRecord)\<lparr>LastPyxisCheckAt := Some 9\<rparr>))
           = CertificationStatusCertified"
    by (simp add: certifiedStatus_def Let_def split: option.splits)
  have o: "Annotations exampleEnrichedRecord ''security.telco.openshift.io/cves''
           = Some ''CVE-OLD-1,CVE-OLD-2''"
    by (simp add: exampleEnrichedRecord_def)
  show ?thesis using l a g s o by auto
qed

lemma validRefs_filter:
  "validRefs c refs =
     filter (\<lambda>p. getPod c (Namespace p) (Name p) \<noteq> Inl NotFound) refs"
proof (induction refs)
  case Nil
  then show ?case by simp
next
  case (Cons p ps)
  then show ?case
    by (cases "getPod c (Namespace p) (Name p)"; cases "projl (getPod c (Namespace p) (Name p))")
       auto
qed

lemma filter_shrinks: "length (filter P xs) \<noteq> length xs \<longleftrightarrow> list_ex (\<lambda>x. \<not> P x) xs"
proof -
  have "length (filter P xs) = length xs \<longleftrightarrow> filter P xs = xs"
    by (metis length_filter_less filter_id_conv nat_neq_iff)
  then show ?thesis by (auto simp: list_ex_iff filter_id_conv)
qed

lemma getPod_cong: "pods c' = pods c \<Longrightarrow> fault c' = fault c \<Longrightarrow> getPod c' = getPod c"
  by (intro ext) (simp add: getPod_def)

lemma map_status_distinct:
  assumes "distinct (map ObjectName (pre @ cr # rest))"
  shows "map (\<lambda>x. if ObjectName x = ObjectName cr then x\<lparr>Status := s\<rparr> else x) (pre @ cr # rest)
         = pre @ cr\<lparr>Status := s\<rparr> # rest"
proof -
  let ?f = "\<lambda>x. if ObjectName x = ObjectName cr then x\<lparr>Status := s\<rparr> else x"
  have "\<And>x. x \<in> set pre \<Longrightarrow> ObjectName x \<noteq> ObjectName cr"
    "\<And>x. x \<in> set rest \<Longrightarrow> ObjectName x \<noteq> ObjectName cr"
    using assms by (auto simp: image_iff)
  then have "\<And>x. x \<in> set pre \<Longrightarrow> ?f x = x" "\<And>x. x \<in> set rest \<Longrightarrow> ?f x = x"
    by simp_all
  then have "map ?f pre = pre" "map ?f rest = rest"
    by (simp_all add: map_idI)
  then show ?thesis by simp
qed

lemma cleanupRecord_step:
  assumes d: "distinct (map ObjectName (pre @ cr # rest))" and c: "crs c = pre @ cr # rest"
  defines "gone \<equiv> \<lambda>p. getPod c (Namespace p) (Name p) = Inl NotFound"
  defines "cr' \<equiv> (if fault c (UpdateStatus (ObjectName cr)) then cr
     else cr\<lparr>Status := (Status cr)\<lparr>PodReferences :=
            filter (\<lambda>p. \<not> gone p) (PodReferences (Status cr))\<rparr>\<rparr>)"
  shows "crs (cleanupRecord c cr) = pre @ cr' # rest
     \<and> writes (cleanupRecord c cr) =
         writes c @ (if list_ex gone (PodReferences (Status cr))
                     then [UpdateStatus (ObjectName cr)] else [])
     \<and> pods (cleanupRecord c cr) = pods c \<and> fault (cleanupRecord c cr) = fault c"
proof (cases "list_ex gone (PodReferences (Status cr))")
  case False
  then have "filter (\<lambda>p. \<not> gone p) (PodReferences (Status cr)) = PodReferences (Status cr)"
    by (auto simp: list_ex_iff filter_id_conv)
  then have "cr' = cr" by (simp add: cr'_def)
  moreover have "cleanupRecord c cr = c"
    using False by (simp add: cleanupRecord_def Let_def validRefs_filter filter_shrinks gone_def)
  ultimately show ?thesis using False c by simp
next
  case True
  let ?new = "cr\<lparr>Status := (Status cr)\<lparr>PodReferences :=
            filter (\<lambda>p. \<not> gone p) (PodReferences (Status cr))\<rparr>\<rparr>"
  have r: "cleanupRecord c cr = snd (updateStatus ?new c)"
    using True by (simp add: cleanupRecord_def Let_def validRefs_filter filter_shrinks gone_def)
  have h: "hasCR c (ObjectName cr)" by (simp add: hasCR_def c)
  show ?thesis
  proof (cases "fault c (UpdateStatus (ObjectName cr))")
    case f: True
    then show ?thesis using True r c by (simp add: updateStatus_def Let_def cr'_def)
  next
    case f: False
    have "crs (snd (updateStatus ?new c)) = pre @ cr\<lparr>Status := Status ?new\<rparr> # rest"
      using f h c map_status_distinct [OF d] by (simp add: updateStatus_def Let_def)
    then show ?thesis using True r f by (simp add: updateStatus_def Let_def cr'_def h)
  qed
qed

lemma cleanup_fold:
  assumes "distinct (map ObjectName (pre @ items))" and "crs c = pre @ items"
    and "pods c = pods c0" and "fault c = fault c0"
  shows "crs (foldl cleanupRecord c items) =
           pre @ map (\<lambda>cr. if fault c0 (UpdateStatus (ObjectName cr)) then cr
                  else cr\<lparr>Status := (Status cr)\<lparr>PodReferences :=
                         filter (\<lambda>p. getPod c0 (Namespace p) (Name p) \<noteq> Inl NotFound)
                           (PodReferences (Status cr))\<rparr>\<rparr>) items
     \<and> writes (foldl cleanupRecord c items) =
           writes c @ map (\<lambda>cr. UpdateStatus (ObjectName cr))
             (filter (\<lambda>cr. list_ex (\<lambda>p. getPod c0 (Namespace p) (Name p) = Inl NotFound)
                              (PodReferences (Status cr))) items)"
  using assms
proof (induction items arbitrary: pre c)
  case Nil
  then show ?case by simp
next
  case (Cons cr rest)
  have g: "getPod c = getPod c0" using Cons.prems(3,4) by (rule getPod_cong)
  let ?cr' = "(if fault c0 (UpdateStatus (ObjectName cr)) then cr
     else cr\<lparr>Status := (Status cr)\<lparr>PodReferences :=
            filter (\<lambda>p. getPod c0 (Namespace p) (Name p) \<noteq> Inl NotFound)
              (PodReferences (Status cr))\<rparr>\<rparr>)"
  let ?c1 = "cleanupRecord c cr"
  have step: "crs ?c1 = pre @ ?cr' # rest"
    "writes ?c1 = writes c @ (if list_ex (\<lambda>p. getPod c0 (Namespace p) (Name p) = Inl NotFound)
                                   (PodReferences (Status cr))
                              then [UpdateStatus (ObjectName cr)] else [])"
    "pods ?c1 = pods c0" "fault ?c1 = fault c0"
    using cleanupRecord_step [OF Cons.prems(1,2)] Cons.prems(3,4) g by simp_all
  have n: "ObjectName ?cr' = ObjectName cr" by simp
  have d1: "distinct (map ObjectName ((pre @ [?cr']) @ rest))"
    using Cons.prems(1) n by (simp del: n)
  have c1: "crs ?c1 = (pre @ [?cr']) @ rest" using step(1) by simp
  from Cons.IH [OF d1 c1 step(3) step(4)] step(2)
  show ?case by simp
qed

text \<open>
  C5. One cleanup pass over records with distinct names, the list request succeeding.
  Afterwards every record whose status write did not fail holds exactly those of its
  references whose pod lookup did not answer "not found": a reference is dropped only when
  the pod is confirmed absent, and kept when the pod exists or the lookup fails otherwise.
  The status writes sent are exactly those for the records with a reference whose pod is
  confirmed absent, that is, the records whose reference list became shorter.
\<close>

theorem CleanupStaleReferences_fail_safe:
  assumes "distinct (map ObjectName (crs c))" and "\<not> fault c ListCRs"
  shows "fst (CleanupStaleReferences c) = None
     \<and> crs (snd (CleanupStaleReferences c)) =
         map (\<lambda>cr. if fault c (UpdateStatus (ObjectName cr)) then cr
                else cr\<lparr>Status := (Status cr)\<lparr>PodReferences :=
                       filter (\<lambda>p. getPod c (Namespace p) (Name p) \<noteq> Inl NotFound)
                         (PodReferences (Status cr))\<rparr>\<rparr>) (crs c)
     \<and> writes (snd (CleanupStaleReferences c)) =
         writes c @ map (\<lambda>cr. UpdateStatus (ObjectName cr))
           (filter (\<lambda>cr. list_ex (\<lambda>p. getPod c (Namespace p) (Name p) = Inl NotFound)
                            (PodReferences (Status cr))) (crs c))"
  using assms cleanup_fold [of "[]" "crs c" c c]
  by (simp add: CleanupStaleReferences_def listCRs_def)

theorem CleanupStaleReferences_fail_safe_witness:
  "distinct (map ObjectName (crs exampleCluster)) \<and> \<not> fault exampleCluster ListCRs
   \<and> map (\<lambda>cr. map Name (PodReferences (Status cr)))
        (crs (snd (CleanupStaleReferences exampleCluster))) = [[''web'', ''flaky'']]
   \<and> writes (snd (CleanupStaleReferences exampleCluster)) = [UpdateStatus ''img'']"
proof -
  have d: "distinct (map ObjectName (crs exampleCluster))"
    and f: "\<not> fault exampleCluster ListCRs"
    by (simp_all add: exampleCluster_def)
  have g: "getPod exampleCluster ''default'' ''web'' = Inr examplePod"
    "getPod exampleCluster ''default'' ''gone'' = Inl NotFound"
    "getPod exampleCluster ''default'' ''flaky'' = Inl OtherError"
    by (simp_all add: getPod_def exampleCluster_def examplePod_def)
  have r: "crs exampleCluster = [exampleRecord]" "writes exampleCluster = []"
    "\<not> fault exampleCluster (UpdateStatus ''img'')"
    by (simp_all add: exampleCluster_def)
  have n: "ObjectName exampleRecord = ''img''"
    "PodReferences (Status exampleRecord) =
       [examplePodRef, \<lparr>Namespace = ''default'', Name = ''gone'', Container = ''app''\<rparr>,
        \<lparr>Namespace = ''default'', Name = ''flaky'', Container = ''app''\<rparr>]"
    by (simp_all add: exampleRecord_def emptyStatus_def)
  show ?thesis
    using CleanupStaleReferences_fail_safe [OF d f] d f
    by (simp add: r n g examplePodRef_def)
qed

section \<open>Properties of the health-grade comparison\<close>

lemma gradeRank_Some:
  "gradeRank gs g = Some i \<Longrightarrow> i < length gs \<and> gs ! i = g"
  by (induction gs arbitrary: i) (auto split: if_splits)

lemma gradeRank_index:
  "distinct gs \<Longrightarrow> i < length gs \<Longrightarrow> gradeRank gs (gs ! i) = Some i"
proof (induction gs arbitrary: i)
  case Nil
  then show ?case by simp
next
  case (Cons x xs)
  then show ?case by (cases i) auto
qed

text \<open>
  C8. A transition is flagged as degraded exactly when both grades are recognized grades
  and the new one stands strictly later in the best-to-worst ranking; so equal or improving
  transitions, and transitions with an empty or unrecognized grade, are never flagged.
\<close>

theorem isHealthDegraded_iff:
  "isHealthDegraded oldGrade newGrade \<longleftrightarrow>
     (\<exists>i j. i < j \<and> j < length healthGrades
        \<and> oldGrade = healthGrades ! i \<and> newGrade = healthGrades ! j)"
proof
  assume "isHealthDegraded oldGrade newGrade"
  then obtain i j where "gradeRank healthGrades oldGrade = Some i"
    "gradeRank healthGrades newGrade = Some j" "i < j"
    by (auto simp: isHealthDegraded_def split: option.splits)
  then show "\<exists>i j. i < j \<and> j < length healthGrades
        \<and> oldGrade = healthGrades ! i \<and> newGrade = healthGrades ! j"
    using gradeRank_Some by blast
next
  assume "\<exists>i j. i < j \<and> j < length healthGrades
        \<and> oldGrade = healthGrades ! i \<and> newGrade = healthGrades ! j"
  then obtain i j where ij: "i < j" "j < length healthGrades"
    "oldGrade = healthGrades ! i" "newGrade = healthGrades ! j" by blast
  have d: "distinct healthGrades" by (simp add: healthGrades_def)
  have "gradeRank healthGrades oldGrade = Some i" "gradeRank healthGrades newGrade = Some j"
    using ij d gradeRank_index by auto
  then show "isHealthDegraded oldGrade newGrade"
    using ij by (simp add: isHealthDegraded_def)
qed

theorem isHealthDegraded_iff_witness:
  "isHealthDegraded ''A'' ''B'' \<and> isHealthDegraded ''A'' ''C'' \<and> isHealthDegraded ''A'' ''F''
   \<and> \<not> isHealthDegraded ''B'' ''A'' \<and> \<not> isHealthDegraded ''B'' ''B''
   \<and> isHealthDegraded ''C'' ''D'' \<and> \<not> isHealthDegraded ''F'' ''A''
   \<and> \<not> isHealthDegraded [] ''B'' \<and> \<not> isHealthDegraded ''A'' []
   \<and> \<not> isHealthDegraded ''X'' ''Y''"
proof -
  have "isHealthDegraded ''A'' ''B''"
    unfolding isHealthDegraded_iff [of "''A''" "''B''"]
    by (rule exI [of _ 0], rule exI [of _ 1]) (simp add: healthGrades_def)
  then show ?thesis
    by (simp add: isHealthDegraded_def healthGrades_def)
qed

section \<open>Properties of the caching decorator\<close>

lemma GetRepositoryInfo_hit:
  "cache cc (cacheKey namespace repository) = Some entry \<Longrightarrow> now < expiresAt entry \<Longrightarrow>
   GetRepositoryInfo cc now now' namespace repository = (Inr (data entry), cc)"
  by (simp add: GetRepositoryInfo_def)

lemma GetRepositoryInfo_miss:
  "(\<And>entry. cache cc (cacheKey namespace repository) = Some entry \<Longrightarrow> expiresAt entry \<le> now) \<Longrightarrow>
   GetRepositoryInfo cc now now' namespace repository = fetchAndStore cc now' namespace repository"
  by (cases "cache cc (cacheKey namespace repository)") (auto simp: GetRepositoryInfo_def)

lemma fetchAndStore_Inr:
  "client cc (length (invocations cc)) namespace repository = Inr d \<Longrightarrow>
   fetchAndStore cc now' namespace repository =
     (Inr d, cc\<lparr>invocations := invocations cc @ [(namespace, repository)],
                cache := (cache cc)(cacheKey namespace repository
                                     \<mapsto> \<lparr>data = d, expiresAt = now' + ttl cc\<rparr>)\<rparr>)"
  by (simp add: fetchAndStore_def Let_def)



text \<open>
  C10. A cache hit leaves the decorator's state unchanged: a request that finds a live entry
  returns its data and the same state, so neither the entry nor its expiry is rewritten and
  no call is made. The expiry of an entry is set only when a fetched answer is stored, to
  the clock at that moment plus \<open>ttl\<close>.
\<close>

theorem cache_hit_frame:
  "(cache cc (cacheKey namespace repository) = Some entry \<and> now < expiresAt entry \<longrightarrow>
      GetRepositoryInfo cc now now' namespace repository = (Inr (data entry), cc))
   \<and> ((\<forall>entry. cache cc (cacheKey namespace repository) = Some entry \<longrightarrow> expiresAt entry \<le> now)
        \<and> client cc (length (invocations cc)) namespace repository = Inr d \<longrightarrow>
      cache (snd (GetRepositoryInfo cc now now' namespace repository))
        (cacheKey namespace repository) = Some \<lparr>data = d, expiresAt = now' + ttl cc\<rparr>)"
  using GetRepositoryInfo_hit [of cc namespace repository entry now now']
    GetRepositoryInfo_miss [of cc namespace repository now now']
    fetchAndStore_Inr [of cc namespace repository d now']
  by auto

theorem cache_hit_frame_witness:
  "cache (snd (GetRepositoryInfo (exampleCachedClient\<lparr>invocations := [(''library'', ''nginx'')]\<rparr>)
                 0 1 ''library'' ''nginx'')) (cacheKey ''library'' ''nginx'')
     = Some \<lparr>data = Some 1, expiresAt = 101\<rparr>
   \<and> GetRepositoryInfo
        (exampleCachedClient\<lparr>cache := [cacheKey ''library'' ''nginx'' \<mapsto> \<lparr>data = Some 1, expiresAt = 101\<rparr>]\<rparr>)
        100 100 ''library'' ''nginx''
     = (Inr (Some 1),
        exampleCachedClient\<lparr>cache := [cacheKey ''library'' ''nginx'' \<mapsto> \<lparr>data = Some 1, expiresAt = 101\<rparr>]\<rparr>)"
  using cache_hit_frame [where cc = "exampleCachedClient\<lparr>invocations := [(''library'', ''nginx'')]\<rparr>"
      and namespace = "''library''" and repository = "''nginx''" and now = 0 and now' = 1
      and d = "Some 1"]
    cache_hit_frame [where cc = "exampleCachedClient\<lparr>cache := [cacheKey ''library'' ''nginx'' \<mapsto> \<lparr>data = Some 1, expiresAt = 101\<rparr>]\<rparr>"
      and namespace = "''library''" and repository = "''nginx''" and now = 100 and now' = 100
      and entry = "\<lparr>data = Some 1, expiresAt = 101\<rparr>"]
  by (simp add: exampleCachedClient_def)



end
